theory Spec2Isabelle
  imports Complex_Main
begin

section \<open>JavaScript numbers and strings\<close>

text \<open>
  The client is a React component (\<^verbatim>\<open>App\<close>) with two helper components
  (\<^verbatim>\<open>MapUpdater\<close>, \<^verbatim>\<open>MapClickEventHandler\<close>).  Its \<^verbatim>\<open>useState\<close> cells become the fields
  of one record; every event handler becomes a function from the record to the updated
  record.  The component exists in two versions; the later one is modelled.  The
  earlier one has the same helper components and the same handlers for input, submit
  and map clicks, without the cells and statements for the computations and without
  resetting the visibility of image 1 on submit.

  A JavaScript number is modelled by its value: \<open>NaN\<close>, the two infinities, or the real
  value of a finite double.  Comparison on doubles is comparison of their values.  A
  numeral that is read and the result of an arithmetic operation are rounded to the
  nearest double, ties to even (\<open>nearest_double\<close> below).  Negative zero is identified
  with zero; nothing in the program tells them apart.  A string is the list of the
  bytes of its UTF-8 encoding.
\<close>

datatype jsnum = NaN | NegInfinity | Num real | PosInfinity

fun isNaN :: "jsnum \<Rightarrow> bool" where
  "isNaN NaN = True"
| "isNaN _ = False"

text \<open>The relational operators \<^verbatim>\<open><\<close>, \<^verbatim>\<open>></\<close>, \<^verbatim>\<open><=\<close>, \<^verbatim>\<open>>=\<close> and \<^verbatim>\<open>===\<close> on numbers: every
  comparison with \<open>NaN\<close> is false.\<close>

fun js_lt :: "jsnum \<Rightarrow> jsnum \<Rightarrow> bool" where
  "js_lt NaN _ = False"
| "js_lt _ NaN = False"
| "js_lt _ NegInfinity = False"
| "js_lt NegInfinity _ = True"
| "js_lt PosInfinity _ = False"
| "js_lt (Num x) (Num y) = (x < y)"
| "js_lt (Num x) PosInfinity = True"

definition js_gt :: "jsnum \<Rightarrow> jsnum \<Rightarrow> bool" where
  "js_gt a b = js_lt b a"

fun js_seq :: "jsnum \<Rightarrow> jsnum \<Rightarrow> bool" where
  "js_seq NaN _ = False"
| "js_seq _ NaN = False"
| "js_seq a b = (a = b)"

definition js_le :: "jsnum \<Rightarrow> jsnum \<Rightarrow> bool" where
  "js_le a b = (js_lt a b \<or> js_seq a b)"

definition js_ge :: "jsnum \<Rightarrow> jsnum \<Rightarrow> bool" where
  "js_ge a b = js_le b a"

text \<open>The remainder operator \<^verbatim>\<open>%\<close> on finite numbers with a non-zero divisor: the
  quotient is truncated towards zero, so the result has the sign of the dividend.\<close>

definition js_trunc :: "real \<Rightarrow> int" where
  "js_trunc x = (if 0 \<le> x then \<lfloor>x\<rfloor> else \<lceil>x\<rceil>)"

definition js_rem :: "real \<Rightarrow> real \<Rightarrow> real" where
  "js_rem a n = a - n * of_int (js_trunc (a / n))"

subsection \<open>Rounding to doubles\<close>

text \<open>The integer nearest to \<open>y\<close>, the even one of the two when \<open>y\<close> lies half way.\<close>

definition round_half_even :: "real \<Rightarrow> int" where
  "round_half_even y =
     (let f = \<lfloor>y\<rfloor>; d = y - of_int f
      in if d < 1 / 2 then f else if 1 / 2 < d then f + 1 else if even f then f else f + 1)"

text \<open>
  The binary exponent of a double near \<open>a \<ge> 0\<close>: the largest \<open>e \<le> 1023\<close> with
  \<open>2\<^sup>e \<le> a\<close>, and \<open>-1022\<close> (the exponent of the subnormal numbers) when there is none
  from \<open>-1022\<close> on.  The search tries \<open>1023\<close>, \<open>1022\<close>, ... in turn.
\<close>

fun binade_search :: "nat \<Rightarrow> real \<Rightarrow> int" where
  "binade_search 0 a = -1022"
| "binade_search (Suc k) a =
     (if 2 powi (int k - 1022) \<le> a then int k - 1022 else binade_search k a)"

definition double_exponent :: "real \<Rightarrow> int" where
  "double_exponent a = binade_search 2046 a"

text \<open>
  Rounding to the nearest double, ties to even: doubles with binary exponent \<open>e\<close> are the
  multiples of \<open>2\<^bsup>e - 52\<^esup>\<close>.  The result is the double the program computes as long as
  it is below \<open>2\<^bsup>1024\<^esup>\<close> in magnitude; \<open>number_value\<close> adds the overflow to an infinity.
\<close>

definition nearest_double :: "real \<Rightarrow> real" where
  "nearest_double x =
     (let q = double_exponent \<bar>x\<bar> - 52
      in of_int (round_half_even (x / 2 powi q)) * 2 powi q)"

definition number_value :: "real \<Rightarrow> jsnum" where
  "number_value x =
     (let v = nearest_double x
      in if 2 powi 1024 \<le> \<bar>v\<bar> then (if x < 0 then NegInfinity else PosInfinity) else Num v)"

text \<open>The arithmetic operators on finite doubles whose result stays finite, and a decimal
  literal of the source.\<close>

definition dbl_mul :: "real \<Rightarrow> real \<Rightarrow> real" where
  "dbl_mul a b = nearest_double (a * b)"

definition dbl_add :: "real \<Rightarrow> real \<Rightarrow> real" where
  "dbl_add a b = nearest_double (a + b)"

definition dbl_sub :: "real \<Rightarrow> real \<Rightarrow> real" where
  "dbl_sub a b = nearest_double (a - b)"

definition lit :: "real \<Rightarrow> real" where
  "lit x = nearest_double x"

subsection \<open>Printing numbers\<close>

definition digit_char :: "nat \<Rightarrow> char" where
  "digit_char n = ''0123456789'' ! (n mod 10)"

text \<open>The decimal digits of a non-negative integer, as a template literal prints it.\<close>

fun show_nat :: "nat \<Rightarrow> string" where
  "show_nat n = (if n < 10 then [digit_char n] else show_nat (n div 10) @ [digit_char (n mod 10)])"

declare show_nat.simps [simp del]

text \<open>The last \<open>k\<close> decimal digits of \<open>n\<close>, padded with zeros on the left.\<close>

fun fixed_digits :: "nat \<Rightarrow> nat \<Rightarrow> string" where
  "fixed_digits 0 n = []"
| "fixed_digits (Suc k) n = fixed_digits k (n div 10) @ [digit_char (n mod 10)]"

text \<open>
  \<^verbatim>\<open>Number.prototype.toFixed(d)\<close> for a finite number below \<open>10\<^sup>2\<^sup>1\<close> in magnitude: a
  negative number prints a minus sign and its negation; \<open>n\<close> is the integer
  nearest to \<open>x * 10\<^sup>d\<close>, the larger one on a tie; the digits of \<open>n\<close> are printed with
  the point \<open>d\<close> places from the right.  \<open>toFixed_scaled\<close> is that integer \<open>n\<close>.
\<close>

definition toFixed_scaled :: "nat \<Rightarrow> real \<Rightarrow> nat" where
  "toFixed_scaled d x = nat \<lfloor>\<bar>x\<bar> * 10 ^ d + 1 / 2\<rfloor>"

definition toFixed :: "nat \<Rightarrow> real \<Rightarrow> string" where
  "toFixed d x =
     (let n = toFixed_scaled d x
      in (if x < 0 then ''-'' else '''') @ show_nat (n div 10 ^ d) @
         (if d = 0 then '''' else ''.'' @ fixed_digits d (n mod 10 ^ d)))"

subsection \<open>Reading numbers\<close>

fun startsWith :: "string \<Rightarrow> string \<Rightarrow> bool" where
  "startsWith s [] = True"
| "startsWith [] (c # cs) = False"
| "startsWith (x # xs) (c # cs) = (x = c \<and> startsWith xs cs)"

text \<open>\<^verbatim>\<open>String.prototype.includes\<close>: the argument occurs as a contiguous substring.\<close>

fun js_includes :: "string \<Rightarrow> string \<Rightarrow> bool" where
  "js_includes [] sub = (sub = [])"
| "js_includes (x # xs) sub = (startsWith (x # xs) sub \<or> js_includes xs sub)"

definition is_digit :: "char \<Rightarrow> bool" where
  "is_digit c = (c \<in> set ''0123456789'')"

definition digit_val :: "char \<Rightarrow> nat" where
  "digit_val c = length (takeWhile (\<lambda>d. d \<noteq> c) ''0123456789'')"

definition digits_val :: "string \<Rightarrow> nat" where
  "digits_val ds = foldl (\<lambda>acc c. acc * 10 + digit_val c) 0 ds"

text \<open>
  The white space and line terminator characters that \<^verbatim>\<open>parseFloat\<close> skips, by the length
  of their UTF-8 encoding: U+0009 to U+000D and U+0020; U+00A0; U+1680, U+2000 to
  U+200A, U+2028, U+2029, U+202F, U+205F, U+3000 and U+FEFF.
\<close>

definition is_space1 :: "char \<Rightarrow> bool" where
  "is_space1 a = (a \<in> {CHR 0x09, CHR 0x0A, CHR 0x0B, CHR 0x0C, CHR 0x0D, CHR 0x20})"

definition is_space2 :: "char \<Rightarrow> char \<Rightarrow> bool" where
  "is_space2 a b = (a = CHR 0xC2 \<and> b = CHR 0xA0)"

definition is_space3 :: "char \<Rightarrow> char \<Rightarrow> char \<Rightarrow> bool" where
  "is_space3 a b c =
     ((a = CHR 0xE1 \<and> b = CHR 0x9A \<and> c = CHR 0x80)
      \<or> (a = CHR 0xE2 \<and> b = CHR 0x80
          \<and> c \<in> {CHR 0x80, CHR 0x81, CHR 0x82, CHR 0x83, CHR 0x84, CHR 0x85, CHR 0x86,
                   CHR 0x87, CHR 0x88, CHR 0x89, CHR 0x8A, CHR 0xA8, CHR 0xA9, CHR 0xAF})
      \<or> (a = CHR 0xE2 \<and> b = CHR 0x81 \<and> c = CHR 0x9F)
      \<or> (a = CHR 0xE3 \<and> b = CHR 0x80 \<and> c = CHR 0x80)
      \<or> (a = CHR 0xEF \<and> b = CHR 0xBB \<and> c = CHR 0xBF))"

fun skip_white :: "string \<Rightarrow> string" where
  "skip_white (a # b # c # s) =
     (if is_space1 a then skip_white (b # c # s)
      else if is_space2 a b then skip_white (c # s)
      else if is_space3 a b c then skip_white s
      else a # b # c # s)"
| "skip_white [a, b] =
     (if is_space1 a then skip_white [b] else if is_space2 a b then [] else [a, b])"
| "skip_white [a] = (if is_space1 a then [] else [a])"
| "skip_white [] = []"

definition parse_sign :: "string \<Rightarrow> bool \<times> string" where
  "parse_sign s =
     (case s of
        [] \<Rightarrow> (False, [])
      | c # r \<Rightarrow> if c = CHR ''-'' then (True, r) else if c = CHR ''+'' then (False, r) else (False, s))"

definition parse_exponent :: "string \<Rightarrow> int" where
  "parse_exponent s =
     (case s of
        [] \<Rightarrow> 0
      | c # r \<Rightarrow>
          if c = CHR ''e'' \<or> c = CHR ''E'' then
            (let (neg, r') = parse_sign r; ds = takeWhile is_digit r'
             in if ds = [] then 0 else if neg then - int (digits_val ds) else int (digits_val ds))
          else 0)"

definition scale10 :: "real \<Rightarrow> int \<Rightarrow> real" where
  "scale10 m e = (if 0 \<le> e then m * 10 ^ nat e else m / 10 ^ nat (- e))"

text \<open>
  The built-in \<^verbatim>\<open>parseFloat\<close>: leading white space is skipped, the longest prefix that
  is a decimal literal (\<^verbatim>\<open>[+-]? (Infinity | digits [. digits?] | . digits) ([eE] [+-]? digits)?\<close>)
  is read and the rest ignored; no such prefix gives \<open>NaN\<close>.  The result is the number
  value of the decimal value read: the nearest double, or an infinity.
\<close>

definition parseFloat :: "string \<Rightarrow> jsnum" where
  "parseFloat str =
     (let (neg, r) = parse_sign (skip_white str)
      in if startsWith r ''Infinity'' then (if neg then NegInfinity else PosInfinity)
         else
           let ip = takeWhile is_digit r;
               r1 = dropWhile is_digit r;
               (fp, r2) = (case r1 of
                             [] \<Rightarrow> ([], [])
                           | c # t \<Rightarrow> if c = CHR ''.'' then (takeWhile is_digit t, dropWhile is_digit t)
                                      else ([], r1))
           in if ip = [] \<and> fp = [] then NaN
              else
                let v = scale10 (real (digits_val (ip @ fp))) (parse_exponent r2 - int (length fp))
                in number_value (if neg then - v else v))"

section \<open>Map click handler\<close>

text \<open>
  The longitude folding of \<^verbatim>\<open>MapClickEventHandler\<close> (the \<^verbatim>\<open>if\<close>/\<^verbatim>\<open>else if\<close> block on
  \<^verbatim>\<open>clickedLon\<close>), for a finite click longitude.
\<close>

definition normalizeClickedLon :: "real \<Rightarrow> real" where
  "normalizeClickedLon clickedLon =
     (if clickedLon > 180 then
        (let l = js_rem clickedLon 360 in if l > 180 then l - 360 else l)
      else if clickedLon < -180 then
        (let l = js_rem clickedLon 360 in if l < -180 then l + 360 else l)
      else clickedLon)"

section \<open>Session state\<close>

text \<open>
  An image descriptor as the backend sends it.  JavaScript compares objects by
  reference, and the state cells \<^verbatim>\<open>image1Info\<close>, \<^verbatim>\<open>image2Info\<close> hold references: \<open>objId\<close>
  is the identity of the object, so two descriptors with the same fields and different
  \<open>objId\<close> are two objects with equal contents.  The objects are never mutated.
  \<open>bounds\<close> is \<open>None\<close> when the property is absent.
\<close>

record ImageDescriptor =
  objId :: nat
  imageUrl :: string
  tileUrlTemplate :: string
  bounds :: "real list list option"
  dateAcquired :: string

text \<open>
  The properties \<^verbatim>\<open>image1\<close> and \<^verbatim>\<open>image2\<close> of the parsed success body.  Each is \<open>None\<close>
  when the body has no such property (\<^verbatim>\<open>undefined\<close>, as for the body \<^verbatim>\<open>{}\<close> or for a body
  that is not an object) or holds \<^verbatim>\<open>null\<close>; a property that is present is a descriptor
  object.
\<close>

record comparison_data =
  image1 :: "ImageDescriptor option"
  image2 :: "ImageDescriptor option"

text \<open>The keys of the \<^verbatim>\<open>errors\<close> object; a value is \<open>Some None\<close> when the key holds
  \<^verbatim>\<open>null\<close>.\<close>

datatype field = FLatitude | FLongitude | FDate1 | FDate2

type_synonym error_map = "field \<rightharpoonup> string option"

record session =
  latitude :: string
  longitude :: string
  date1 :: string
  date2 :: string
  cloudCover :: nat
  errors :: error_map
  isLoading :: bool
  apiError :: string
  image1Info :: "ImageDescriptor option"
  image2Info :: "ImageDescriptor option"
  isImage1Visible :: bool
  mapCenter :: "(jsnum \<times> jsnum) option"
  markerPosition :: "(jsnum \<times> jsnum) option"
  selectedComputations :: "string list"
  computationResults :: "string \<rightharpoonup> string"
  isCalculating :: bool
  showCalculationResults :: bool

text \<open>The \<^verbatim>\<open>useState\<close> defaults of \<^verbatim>\<open>App\<close>.\<close>

definition initialState :: session where
  "initialState =
     \<lparr> latitude = ''35.4393'', longitude = ''-82.2465'',
       date1 = ''2024-09-16'', date2 = ''2024-10-12'', cloudCover = 20,
       errors = Map.empty, isLoading = False, apiError = '''',
       image1Info = None, image2Info = None, isImage1Visible = True,
       mapCenter = None, markerPosition = None,
       selectedComputations = [], computationResults = Map.empty,
       isCalculating = False, showCalculationResults = False \<rparr>"

text \<open>Truthiness of \<^verbatim>\<open>errors.f\<close>: the key holds a non-empty string.\<close>

definition error_shown :: "error_map \<Rightarrow> field \<Rightarrow> bool" where
  "error_shown e f = (case e f of Some (Some m) \<Rightarrow> m \<noteq> [] | _ \<Rightarrow> False)"

text \<open>\<^verbatim>\<open>Object.keys(e).length > 0\<close>.\<close>

definition has_keys :: "error_map \<Rightarrow> bool" where
  "has_keys e = (e FLatitude \<noteq> None \<or> e FLongitude \<noteq> None \<or> e FDate1 \<noteq> None \<or> e FDate2 \<noteq> None)"

section \<open>Viewport\<close>

text \<open>The updater passed to \<^verbatim>\<open>setMapCenter\<close>: the previous pair is kept when both
  components are strictly equal to the new ones.\<close>

definition keepCenter :: "(jsnum \<times> jsnum) option \<Rightarrow> jsnum \<Rightarrow> jsnum \<Rightarrow> (jsnum \<times> jsnum) option" where
  "keepCenter prev latNum lonNum =
     (case prev of
        Some (a, b) \<Rightarrow> if js_seq a latNum \<and> js_seq b lonNum then prev else Some (latNum, lonNum)
      | None \<Rightarrow> Some (latNum, lonNum))"

text \<open>The effect of \<^verbatim>\<open>App\<close> that depends on \<^verbatim>\<open>[latitude, longitude]\<close>.\<close>

definition latLonEffect :: "session \<Rightarrow> session" where
  "latLonEffect s =
     (let latNum = parseFloat (latitude s); lonNum = parseFloat (longitude s)
      in if \<not> isNaN latNum \<and> \<not> isNaN lonNum \<and> js_ge latNum (Num (-90)) \<and> js_le latNum (Num 90)
            \<and> js_ge lonNum (Num (-180)) \<and> js_le lonNum (Num 180)
         then s\<lparr> markerPosition := Some (latNum, lonNum),
                 mapCenter := keepCenter (mapCenter s) latNum lonNum \<rparr>
         else s\<lparr> markerPosition := None \<rparr>)"

text \<open>The click callback of \<^verbatim>\<open>MapClickEventHandler\<close>, for finite click coordinates.\<close>

definition MapClickEventHandler :: "real \<Rightarrow> real \<Rightarrow> session \<Rightarrow> session" where
  "MapClickEventHandler clickedLat lng s =
     (let clickedLon = normalizeClickedLon lng
      in s\<lparr> latitude := toFixed 6 clickedLat,
              longitude := toFixed 6 clickedLon,
              markerPosition := Some (Num clickedLat, Num clickedLon),
              mapCenter := Some (Num clickedLat, Num clickedLon) \<rparr>)"

text \<open>The calls \<^verbatim>\<open>MapUpdater\<close> makes on the map when its timer fires.\<close>

datatype map_call = InvalidateSize | FlyTo "jsnum \<times> jsnum" nat | FitBounds "real list list"

definition MapUpdater :: "real list list option \<Rightarrow> (jsnum \<times> jsnum) option \<Rightarrow> map_call list" where
  "MapUpdater bnds center =
     InvalidateSize #
       (case center of
          Some c \<Rightarrow> [FlyTo c 13]
        | None \<Rightarrow> (case bnds of Some b \<Rightarrow> [FitBounds b] | None \<Rightarrow> []))"

text \<open>\<^verbatim>\<open>image?.bounds\<close>.\<close>

definition bounds_of :: "ImageDescriptor option \<Rightarrow> real list list option" where
  "bounds_of img = (case img of None \<Rightarrow> None | Some i \<Rightarrow> bounds i)"

definition mapUpdaterBounds :: "session \<Rightarrow> real list list option" where
  "mapUpdaterBounds s =
     (if bounds_of (image1Info s) \<noteq> None then bounds_of (image1Info s)
      else if bounds_of (image2Info s) \<noteq> None then bounds_of (image2Info s)
      else None)"

definition mapUpdaterCenter :: "session \<Rightarrow> (jsnum \<times> jsnum) option" where
  "mapUpdaterCenter s = mapCenter s"

text \<open>What the map is told to do for a session: \<^verbatim>\<open><MapUpdater bounds={mapUpdaterBounds}
  center={mapUpdaterCenter} />\<close>.\<close>

definition viewport_calls :: "session \<Rightarrow> map_call list" where
  "viewport_calls s = MapUpdater (mapUpdaterBounds s) (mapUpdaterCenter s)"

section \<open>Input handlers\<close>

definition handleLatitudeChange :: "string \<Rightarrow> session \<Rightarrow> session" where
  "handleLatitudeChange v s =
     (let s1 = s\<lparr> latitude := v \<rparr>
      in if error_shown (errors s) FLatitude
         then s1\<lparr> errors := (errors s)(FLatitude \<mapsto> None) \<rparr> else s1)"

definition handleLongitudeChange :: "string \<Rightarrow> session \<Rightarrow> session" where
  "handleLongitudeChange v s =
     (let s1 = s\<lparr> longitude := v \<rparr>
      in if error_shown (errors s) FLongitude
         then s1\<lparr> errors := (errors s)(FLongitude \<mapsto> None) \<rparr> else s1)"

definition handleDate1Change :: "string \<Rightarrow> session \<Rightarrow> session" where
  "handleDate1Change v s =
     (let s1 = s\<lparr> date1 := v \<rparr>
      in if error_shown (errors s) FDate1
         then s1\<lparr> errors := (errors s)(FDate1 \<mapsto> None) \<rparr> else s1)"

definition handleDate2Change :: "string \<Rightarrow> session \<Rightarrow> session" where
  "handleDate2Change v s =
     (let s1 = s\<lparr> date2 := v \<rparr>
      in if error_shown (errors s) FDate2
         then s1\<lparr> errors := (errors s)(FDate2 \<mapsto> None) \<rparr> else s1)"

section \<open>Submitting a comparison request\<close>

text \<open>The object \<^verbatim>\<open>newErrors\<close> that \<^verbatim>\<open>handleSubmit\<close> builds, one statement per field.\<close>

definition newErrors :: "session \<Rightarrow> error_map" where
  "newErrors s =
     (let latNum = parseFloat (latitude s);
          lonNum = parseFloat (longitude s);
          e0 = Map.empty;
          e1 = (if isNaN latNum \<or> latitude s = []
                then e0(FLatitude \<mapsto> Some ''Latitude is required and must be a number.'')
                else if js_lt latNum (Num (-90)) \<or> js_gt latNum (Num 90)
                then e0(FLatitude \<mapsto> Some ''Must be between -90 and 90.'')
                else e0);
          e2 = (if isNaN lonNum \<or> longitude s = []
                then e1(FLongitude \<mapsto> Some ''Longitude is required and must be a number.'')
                else if js_lt lonNum (Num (-180)) \<or> js_gt lonNum (Num 180)
                then e1(FLongitude \<mapsto> Some ''Must be between -180 and 180.'')
                else e1);
          e3 = (if date1 s = [] then e2(FDate1 \<mapsto> Some ''Date 1 is required.'') else e2);
          e4 = (if date2 s = [] then e3(FDate2 \<mapsto> Some ''Date 2 is required.'') else e3)
      in e4)"

text \<open>
  \<^verbatim>\<open>handleSubmit\<close> up to its \<^verbatim>\<open>await fetch(apiUrl)\<close>: validation, and either the early
  return that clears the session or the updates that precede the request.
\<close>

definition handleSubmit_start :: "session \<Rightarrow> session" where
  "handleSubmit_start s =
     (let e = newErrors s; s1 = s\<lparr> errors := e \<rparr>
      in if has_keys e
         then s1\<lparr> image1Info := None, image2Info := None, apiError := '''',
                  mapCenter := None, markerPosition := None,
                  showCalculationResults := False \<rparr>
         else s1\<lparr> isImage1Visible := True, isLoading := True, apiError := '''',
                  image1Info := None, image2Info := None,
                  showCalculationResults := False \<rparr>)"

text \<open>
  What the request comes back with.  \<open>Inl msg\<close>: \<^verbatim>\<open>fetch\<close> rejects with an error whose
  message is \<open>msg\<close>.  Otherwise a response with its status, the text
  \<^verbatim>\<open>response.text()\<close> resolves to, and what \<^verbatim>\<open>response.json()\<close> does: reject with a message
  (\<open>Inl\<close>) or resolve to the parsed body, \<open>None\<close> when the body is \<^verbatim>\<open>null\<close>.
\<close>

record response =
  status :: nat
  responseText :: string
  responseJson :: "string + comparison_data option"

type_synonym fetch_outcome = "string + response"

definition ok :: "response \<Rightarrow> bool" where
  "ok r = (200 \<le> status r \<and> status r \<le> 299)"

text \<open>The \<^verbatim>\<open>try\<close> block down to \<^verbatim>\<open>const data\<close>: \<open>Inl\<close> carries \<^verbatim>\<open>error.message\<close> of the
  error caught.\<close>

definition fetch_data :: "fetch_outcome \<Rightarrow> string + comparison_data option" where
  "fetch_data out =
     (case out of
        Inl msg \<Rightarrow> Inl msg
      | Inr r \<Rightarrow>
          if \<not> ok r then
            Inl (if responseText r \<noteq> [] then responseText r
                 else ''HTTP error! Status: '' @ show_nat (status r))
          else responseJson r)"

text \<open>The comparison \<^verbatim>\<open>JSON.stringify(a) === JSON.stringify(b)\<close> on bounds: arrays of
  finite numbers print alike exactly when they are equal, and two absent values
  compare equal.\<close>

definition same_stringify :: "real list list option \<Rightarrow> real list list option \<Rightarrow> bool" where
  "same_stringify a b = (a = b)"

text \<open>
  An error thrown where the \<^verbatim>\<open>try\<close> block of the handler does not catch it: a property
  read on \<^verbatim>\<open>undefined\<close> or \<^verbatim>\<open>null\<close> inside a state updater, which React runs while
  rendering.  No error boundary is installed, so the component tree is unmounted and
  there is no session any more.
\<close>

datatype error = TypeError

text \<open>
  The updater passed to \<^verbatim>\<open>setImage1Info\<close> and \<^verbatim>\<open>setImage2Info\<close>.  \<open>prev\<close> is the cell,
  \<open>incoming\<close> the property of the body.  With a descriptor held, the comparison reads
  \<^verbatim>\<open>imageUrl\<close> of the incoming value and throws when that is absent; with none held the
  incoming value is returned as it is.
\<close>

definition keepImage :: "ImageDescriptor option \<Rightarrow> ImageDescriptor option \<Rightarrow> error + ImageDescriptor option" where
  "keepImage prev incoming =
     (case prev of
        None \<Rightarrow> Inr incoming
      | Some p \<Rightarrow>
          (case incoming of
             None \<Rightarrow> Inl TypeError
           | Some n \<Rightarrow>
               if imageUrl p = imageUrl n \<and> same_stringify (bounds p) (bounds n)
               then Inr (Some p) else Inr (Some n)))"

text \<open>
  \<^verbatim>\<open>handleSubmit\<close> after the \<^verbatim>\<open>await\<close>: \<open>latNum\<close> and \<open>lonNum\<close> are the values the
  closure captured, \<open>s\<close> is the session when the request settles (the updaters read the
  state of that moment).  For the body \<^verbatim>\<open>null\<close> the updaters throw on \<^verbatim>\<open>data.image1\<close>.
\<close>

definition handleSubmit_settle :: "jsnum \<Rightarrow> jsnum \<Rightarrow> fetch_outcome \<Rightarrow> session \<Rightarrow> error + session" where
  "handleSubmit_settle latNum lonNum out s =
     (case fetch_data out of
        Inl msg \<Rightarrow>
          Inr (s\<lparr> apiError := msg, mapCenter := None, markerPosition := None,
                  isLoading := False \<rparr>)
      | Inr None \<Rightarrow> Inl TypeError
      | Inr (Some data) \<Rightarrow>
          (case keepImage (image1Info s) (image1 data) of
             Inl e \<Rightarrow> Inl e
           | Inr i1 \<Rightarrow>
               (case keepImage (image2Info s) (image2 data) of
                  Inl e \<Rightarrow> Inl e
                | Inr i2 \<Rightarrow>
                    Inr (s\<lparr> image1Info := i1, image2Info := i2,
                            mapCenter := keepCenter (mapCenter s) latNum lonNum,
                            markerPosition := Some (latNum, lonNum),
                            isLoading := False \<rparr>))))"

text \<open>A whole run of \<^verbatim>\<open>handleSubmit\<close> with nothing else happening in between.\<close>

definition handleSubmit :: "fetch_outcome \<Rightarrow> session \<Rightarrow> error + session" where
  "handleSubmit out s =
     (if has_keys (newErrors s) then Inr (handleSubmit_start s)
      else handleSubmit_settle (parseFloat (latitude s)) (parseFloat (longitude s)) out
             (handleSubmit_start s))"

text \<open>What \<^verbatim>\<open>App\<close> renders: the result panel under \<^verbatim>\<open>image1Info && image2Info\<close>, the
  error paragraph under \<^verbatim>\<open>apiError\<close>.\<close>

definition results_rendered :: "session \<Rightarrow> bool" where
  "results_rendered s = (image1Info s \<noteq> None \<and> image2Info s \<noteq> None)"

definition apiError_rendered :: "session \<Rightarrow> bool" where
  "apiError_rendered s = (apiError s \<noteq> [])"

section \<open>Reset\<close>

definition handleClearAndReset :: "session \<Rightarrow> session" where
  "handleClearAndReset s =
     s\<lparr> image1Info := None, image2Info := None, isImage1Visible := True,
        errors := Map.empty, apiError := '''', isLoading := False,
        selectedComputations := [], computationResults := Map.empty,
        isCalculating := False, showCalculationResults := False \<rparr>"

section \<open>Selecting computations\<close>

definition computationCategories :: "(string \<times> string list) list" where
  "computationCategories =
     [(''Disaster Response & Monitoring'',
         [''Differenced Normalized Burn Ratio (dNBR)'',
          ''Normalized Difference Flood Index (NDFI)'',
          ''Building Damage Proxy Map (Simulated)'',
          ''Landslide Susceptibility Index (Simulated)'']),
      (''Agriculture & Forestry'',
         [''NDVI (Normalized Difference Vegetation Index)'',
          ''EVI (Enhanced Vegetation Index)'',
          ''NDMI (Normalized Difference Moisture Index)'',
          ''Chlorophyll Index (Simulated)'']),
      (''Water Resources'',
         [''NDWI (Normalized Difference Water Index - Surface Water)'',
          ''Modified Normalized Difference Water Index (MNDWI)'',
          ''Turbidity/Sedimentation Index (Simulated)'']),
      (''Urban & Land Use Change'',
         [''Normalized Difference Built-up Index (NDBI)'',
          ''Impervious Surface Change Detection (Simulated)'',
          ''Urban Heat Island (LST Difference - Simulated)'',
          ''Green Space Monitoring (Simulated)''])]"

text \<open>\<^verbatim>\<open>[...new Set(xs)]\<close>: the first occurrence of every element, in order.\<close>

definition spread_set :: "string list \<Rightarrow> string list" where
  "spread_set xs = rev (remdups (rev xs))"

text \<open>The handler of a category checkbox.  When the category is not a key of
  \<^verbatim>\<open>computationCategories\<close> the lookup is \<^verbatim>\<open>undefined\<close>: spreading it throws, and so does
  the call of \<^verbatim>\<open>includes\<close> on it for the first selected name, if there is one (\<open>None\<close>).\<close>

definition handleCategoryCheckboxChange :: "string \<Rightarrow> bool \<Rightarrow> session \<Rightarrow> session option" where
  "handleCategoryCheckboxChange category checked s =
     (case map_of computationCategories category of
        None \<Rightarrow>
          if \<not> checked \<and> selectedComputations s = []
          then Some (s\<lparr> selectedComputations := [], showCalculationResults := False \<rparr>)
          else None
      | Some computationsInCategory \<Rightarrow>
          Some (s\<lparr> selectedComputations :=
                     (if checked then spread_set (selectedComputations s @ computationsInCategory)
                      else filter (\<lambda>item. item \<notin> set computationsInCategory) (selectedComputations s)),
                   showCalculationResults := False \<rparr>))"

definition handleComputationChange :: "string \<Rightarrow> bool \<Rightarrow> session \<Rightarrow> session" where
  "handleComputationChange v checked s =
     s\<lparr> selectedComputations :=
          (if checked then selectedComputations s @ [v]
           else filter (\<lambda>item. item \<noteq> v) (selectedComputations s)),
        showCalculationResults := False \<rparr>"

text \<open>The \<^verbatim>\<open>checked\<close> attribute of a category checkbox:
  \<^verbatim>\<open>computations.every(comp => selectedComputations.includes(comp))\<close>.\<close>

definition categoryChecked :: "string list \<Rightarrow> session \<Rightarrow> bool" where
  "categoryChecked computations s = list_all (\<lambda>item. item \<in> set (selectedComputations s)) computations"

section \<open>Simulated computation\<close>

text \<open>A non-negative multiple of \<open>1/100\<close>, given in hundredths, as a template literal
  prints the number: no trailing zeros, no point for an integer.\<close>

definition show_hundredths :: "nat \<Rightarrow> string" where
  "show_hundredths n =
     show_nat (n div 100) @
       (if n mod 100 = 0 then ''''
        else if n mod 10 = 0 then ''.'' @ [digit_char (n mod 100 div 10)]
        else ''.'' @ fixed_digits 2 (n mod 100))"

text \<open>
  \<^verbatim>\<open>const c = x.toFixed(2)\<close> followed by \<^verbatim>\<open>`${Math.abs(c)}% ${c > 0 ? 'Increase' : 'Decrease'}`\<close>:
  the string \<open>c\<close> is converted back to the number it denotes, which is
  \<open>toFixed_scaled 2 x\<close> hundredths, negated when \<open>x < 0\<close>.
\<close>

definition change_text :: "real \<Rightarrow> string" where
  "change_text x =
     (let n = toFixed_scaled 2 x
      in show_hundredths n @ ''% '' @ (if \<not> x < 0 \<and> 0 < n then ''Increase'' else ''Decrease''))"

text \<open>
  The body of the inner \<^verbatim>\<open>forEach\<close> of \<^verbatim>\<open>handleCalculate\<close> for one selected name.
  \<open>rnd\<close> lists the successive values of \<^verbatim>\<open>Math.random()\<close>, each in \<open>[0, 1)\<close>; the state
  is the \<^verbatim>\<open>results\<close> object and the number of values drawn so far.  The arithmetic is
  that of doubles.
\<close>

definition simulate :: "(nat \<Rightarrow> real) \<Rightarrow> string \<Rightarrow> (string \<rightharpoonup> string) \<times> nat \<Rightarrow> (string \<rightharpoonup> string) \<times> nat" where
  "simulate rnd item st =
     (let results = fst st; k = snd st; r = rnd k
      in if js_includes item ''dNBR'' then
           (results(''dNBR'' \<mapsto> toFixed 4 (dbl_sub (dbl_mul r (lit 1.5)) (lit 0.5))), Suc k)
         else if js_includes item ''NDFI'' then
           (results(''NDFI'' \<mapsto> toFixed 4 (dbl_add (dbl_mul r (lit 0.8)) (lit 0.1))), Suc k)
         else if js_includes item ''Building Damage Proxy Map'' then
           (results(''buildingDamage'' \<mapsto>
              ''Estimated '' @ show_nat (nat \<lfloor>dbl_mul r (lit 20)\<rfloor> + 5) @ ''% structural damage detected.''), Suc k)
         else if js_includes item ''Landslide Susceptibility Index'' then
           (results(''landslideSusceptibility'' \<mapsto>
              (if r < lit 0.3 then ''Low'' else if r < lit 0.7 then ''Medium'' else ''High'')), Suc k)
         else if js_includes item ''NDVI'' then
           (results(''NDVI'' \<mapsto> toFixed 4 (dbl_sub (dbl_mul r (lit 2)) (lit 1))), Suc k)
         else if js_includes item ''EVI'' then
           (results(''EVI'' \<mapsto> toFixed 4 (dbl_add (dbl_mul r (lit 0.8)) (lit 0.1))), Suc k)
         else if js_includes item ''NDMI'' then
           (results(''NDMI'' \<mapsto> toFixed 4 (dbl_sub (dbl_mul r (lit 1.5)) (lit 0.5))), Suc k)
         else if js_includes item ''Chlorophyll Index'' then
           (results(''ChlorophyllIndex'' \<mapsto> toFixed 4 (dbl_add (dbl_mul r (lit 0.5)) (lit 0.2))), Suc k)
         else if js_includes item ''NDWI (Normalized Difference Water Index - Surface Water)'' then
           (results(''NDWI_Surface'' \<mapsto> toFixed 4 (dbl_sub (dbl_mul r (lit 1.5)) (lit 0.5))), Suc k)
         else if js_includes item ''MNDWI'' then
           (results(''MNDWI'' \<mapsto> toFixed 4 (dbl_sub (dbl_mul r (lit 1.5)) (lit 0.5))), Suc k)
         else if js_includes item ''Turbidity/Sedimentation Index'' then
           (results(''Turbidity'' \<mapsto> toFixed 4 (dbl_add (dbl_mul r (lit 0.4)) (lit 0.05))), Suc k)
         else if js_includes item ''NDBI'' then
           (results(''NDBI'' \<mapsto> toFixed 4 (dbl_sub (dbl_mul r (lit 1.2)) (lit 0.6))), Suc k)
         else if js_includes item ''Impervious Surface Change Detection'' then
           (results(''imperviousChange'' \<mapsto> change_text (dbl_sub (dbl_mul r (lit 20)) (lit 10)) @ '' in impervious surface''), Suc k)
         else if js_includes item ''Urban Heat Island'' then
           (results(''urbanHeatIsland'' \<mapsto>
              toFixed 2 (dbl_add (dbl_mul r (lit 5)) (lit 1)) @ [CHR 0xC3, CHR 0x82, CHR 0xC2, CHR 0xB0] @
              ''C hotter in urban core (Simulated)''), Suc k)
         else if js_includes item ''Green Space Monitoring'' then
           (results(''greenSpaceChange'' \<mapsto> change_text (dbl_sub (dbl_mul r (lit 15)) (lit 7)) @ '' in green space cover''), Suc k)
         else (results, k))"

text \<open>The keys the loop body writes for a selected name; which key is written does not
  depend on the random values.\<close>

definition result_keys :: "string \<Rightarrow> string set" where
  "result_keys item = dom (fst (simulate (\<lambda>_. 0) item (Map.empty, 0)))"

text \<open>The two nested \<^verbatim>\<open>selectedComputations.forEach\<close> calls, starting from the empty
  \<^verbatim>\<open>results\<close> object.\<close>

definition simulate_all :: "(nat \<Rightarrow> real) \<Rightarrow> string list \<Rightarrow> (string \<rightharpoonup> string) \<times> nat" where
  "simulate_all rnd sel = fold (\<lambda>_. fold (simulate rnd) sel) sel (Map.empty, 0)"

text \<open>\<^verbatim>\<open>handleCalculate\<close> up to \<^verbatim>\<open>setTimeout\<close>.\<close>

definition handleCalculate :: "session \<Rightarrow> session" where
  "handleCalculate s = s\<lparr> isCalculating := True, computationResults := Map.empty \<rparr>"

text \<open>The timer callback of \<^verbatim>\<open>handleCalculate\<close>: \<open>sel\<close> is the selection the closure
  captured when the button was clicked, \<open>s\<close> the session when the timer fires.\<close>

definition handleCalculate_timeout :: "(nat \<Rightarrow> real) \<Rightarrow> string list \<Rightarrow> session \<Rightarrow> session" where
  "handleCalculate_timeout rnd sel s =
     s\<lparr> computationResults := fst (simulate_all rnd sel),
        isCalculating := False, showCalculationResults := True \<rparr>"

text \<open>The \<^verbatim>\<open>disabled\<close> attribute of the "Calculate Selected" button, and a click on it:
  the button exists only inside the result panel, and a disabled button does not call
  its handler.\<close>

definition calculate_disabled :: "session \<Rightarrow> bool" where
  "calculate_disabled s = (length (selectedComputations s) = 0 \<or> isCalculating s)"

definition calculate_click :: "session \<Rightarrow> session option" where
  "calculate_click s =
     (if \<not> results_rendered s \<or> calculate_disabled s then None else Some (handleCalculate s))"

text \<open>A click followed by the timer, with nothing else happening in between.\<close>

definition handleCalculate_run :: "(nat \<Rightarrow> real) \<Rightarrow> session \<Rightarrow> session option" where
  "handleCalculate_run rnd s =
     map_option (handleCalculate_timeout rnd (selectedComputations s)) (calculate_click s)"

section \<open>Example data\<close>

text \<open>A success response with two descriptors whose bounds differ, and the same
  response parsed a second time: equal contents in newly created objects.\<close>

definition example_image1 :: ImageDescriptor where
  "example_image1 =
     \<lparr> objId = 1, imageUrl = ''http://localhost:8080/images/before.png'',
       tileUrlTemplate = ''http://localhost:8080/tiles/before/{z}/{x}/{y}'',
       bounds = Some [ [35.39, -82.30], [35.49, -82.19] ],
       dateAcquired = ''2024-09-16'' \<rparr>"

definition example_image2 :: ImageDescriptor where
  "example_image2 =
     \<lparr> objId = 2, imageUrl = ''http://localhost:8080/images/after.png'',
       tileUrlTemplate = ''http://localhost:8080/tiles/after/{z}/{x}/{y}'',
       bounds = Some [ [35.38, -82.31], [35.50, -82.18] ],
       dateAcquired = ''2024-10-12'' \<rparr>"

definition example_response :: response where
  "example_response =
     \<lparr> status = 200, responseText = ''<body>'',
       responseJson = Inr (Some \<lparr> image1 = Some example_image1, image2 = Some example_image2 \<rparr>) \<rparr>"

definition example_response_again :: response where
  "example_response_again =
     \<lparr> status = 200, responseText = ''<body>'',
       responseJson = Inr (Some \<lparr> image1 = Some (example_image1\<lparr> objId := 3 \<rparr>),
                                   image2 = Some (example_image2\<lparr> objId := 4 \<rparr>) \<rparr>) \<rparr>"

text \<open>The session after mounting: the defaults, then the coordinate effect.  The examples
  take the session out of a result with \<open>projr\<close>; the lemmas on them show that each result
  is a session.\<close>

definition mountedState :: session where
  "mountedState = latLonEffect initialState"

text \<open>A session with loaded images at another place: latitude 10 and longitude 20
  are typed in (the coordinate effect runs after each edit), then the form is
  submitted and the example response arrives.\<close>

definition example_loaded :: session where
  "example_loaded =
     projr (handleSubmit (Inr example_response)
       (latLonEffect (handleLongitudeChange ''20''
          (latLonEffect (handleLatitudeChange ''10'' mountedState)))))"

text \<open>A session showing two validation messages.\<close>

definition example_invalid :: session where
  "example_invalid = handleSubmit_start (initialState\<lparr> latitude := ''95'', date1 := '''' \<rparr>)"

text \<open>The scenario of the default form values: the mounted session is submitted and
  the example response arrives; and the same form submitted once more, answered by the
  same response parsed anew.\<close>

definition example_scenario :: session where
  "example_scenario = projr (handleSubmit (Inr example_response) mountedState)"

definition example_resubmitted :: session where
  "example_resubmitted = projr (handleSubmit (Inr example_response_again) example_scenario)"

text \<open>Invalid input typed into a session with loaded images, and into the mounted
  one.\<close>

definition example_bad_input :: session where
  "example_bad_input =
     handleDate1Change ''''
       (latLonEffect (handleLongitudeChange ''-200''
          (latLonEffect (handleLatitudeChange ''95'' example_loaded))))"

definition example_missing_input :: session where
  "example_missing_input =
     latLonEffect (handleLongitudeChange ''abc''
       (latLonEffect (handleLatitudeChange '''' mountedState)))"

text \<open>A success response whose body is \<^verbatim>\<open>{}\<close>, and one whose body is \<^verbatim>\<open>null\<close>.\<close>

definition example_empty_response :: response where
  "example_empty_response =
     \<lparr> status = 200, responseText = ''{}'',
       responseJson = Inr (Some \<lparr> image1 = None, image2 = None \<rparr>) \<rparr>"

definition example_null_response :: response where
  "example_null_response =
     \<lparr> status = 200, responseText = ''null'', responseJson = Inr None \<rparr>"

text \<open>A failure response with an empty body, and one with a message.\<close>

definition example_error_response :: response where
  "example_error_response =
     \<lparr> status = 500, responseText = '''',
       responseJson = Inl ''Unexpected end of JSON input'' \<rparr>"

definition example_not_found_response :: response where
  "example_not_found_response =
     \<lparr> status = 404, responseText = ''No images found for the given dates.'',
       responseJson = Inl ''Unexpected token N in JSON at position 0'' \<rparr>"

text \<open>A request that fails after the session has loaded images (the late answer of
  an earlier request).\<close>

definition example_late_failure :: session where
  "example_late_failure =
     projr (handleSubmit_settle (parseFloat ''35.4393'') (parseFloat ''-82.2465'')
              (Inl ''Failed to fetch'') example_scenario)"

text \<open>The items of the category "Water Resources".\<close>

definition example_water_items :: "string list" where
  "example_water_items =
     [''NDWI (Normalized Difference Water Index - Surface Water)'',
      ''Modified Normalized Difference Water Index (MNDWI)'',
      ''Turbidity/Sedimentation Index (Simulated)'']"

text \<open>The mounted session submitted and answered by the body \<^verbatim>\<open>{}\<close>.\<close>

definition example_empty_result :: session where
  "example_empty_result = projr (handleSubmit (Inr example_empty_response) mountedState)"

text \<open>A latitude above 90 by less than the spacing of the doubles there.\<close>

definition example_rounded_input :: session where
  "example_rounded_input =
     latLonEffect (handleLatitudeChange ''90.00000000000000001'' mountedState)"

text \<open>Sessions with loaded images and a selection: two items ticked, a run with
  every random value equal to \<open>1/4\<close>, then the second item unticked.\<close>

definition example_two_selected :: session where
  "example_two_selected =
     handleComputationChange ''EVI (Enhanced Vegetation Index)'' True
       (handleComputationChange ''NDVI (Normalized Difference Vegetation Index)'' True
          example_scenario)"

definition example_after_run :: session where
  "example_after_run =
     handleCalculate_timeout (\<lambda>_. 1 / 4) (selectedComputations example_two_selected)
       (handleCalculate example_two_selected)"

definition example_ndvi_selected :: session where
  "example_ndvi_selected =
     handleComputationChange ''EVI (Enhanced Vegetation Index)'' False example_after_run"

section \<open>Longitude folding\<close>

lemma js_rem_pos_range:
  assumes "0 \<le> a"
  shows "0 \<le> js_rem a 360" and "js_rem a 360 < 360"
proof -
  have q: "js_trunc (a / 360) = \<lfloor>a / 360\<rfloor>"
    using assms by (simp add: js_trunc_def)
  have lo: "of_int \<lfloor>a / 360\<rfloor> \<le> a / 360" by linarith
  have hi: "a / 360 < of_int \<lfloor>a / 360\<rfloor> + 1" by linarith
  show "0 \<le> js_rem a 360" using lo unfolding js_rem_def q by linarith
  show "js_rem a 360 < 360" using hi unfolding js_rem_def q by linarith
qed

lemma js_rem_neg_range:
  assumes "a < 0"
  shows "-360 < js_rem a 360" and "js_rem a 360 \<le> 0"
proof -
  have q: "js_trunc (a / 360) = \<lceil>a / 360\<rceil>"
    using assms by (simp add: js_trunc_def)
  have hi: "a / 360 \<le> of_int \<lceil>a / 360\<rceil>" by linarith
  have lo: "of_int \<lceil>a / 360\<rceil> - 1 < a / 360" by linarith
  show "-360 < js_rem a 360" using lo unfolding js_rem_def q by linarith
  show "js_rem a 360 \<le> 0" using hi unfolding js_rem_def q by linarith
qed

lemma normalizeClickedLon_range: "-180 \<le> normalizeClickedLon x \<and> normalizeClickedLon x \<le> 180"
proof -
  consider (hi) "x > 180" | (lo) "x < -180" | (mid) "-180 \<le> x \<and> x \<le> 180" by linarith
  then show ?thesis
  proof cases
    case hi
    then have "0 \<le> js_rem x 360" "js_rem x 360 < 360"
      using js_rem_pos_range [of x] by simp_all
    with hi show ?thesis by (simp add: normalizeClickedLon_def Let_def)
  next
    case lo
    then have "-360 < js_rem x 360" "js_rem x 360 \<le> 0"
      using js_rem_neg_range [of x] by simp_all
    with lo show ?thesis by (simp add: normalizeClickedLon_def Let_def)
  next
    case mid
    then show ?thesis by (simp add: normalizeClickedLon_def)
  qed
qed

lemma normalizeClickedLon_fixed:
  "-180 \<le> x \<Longrightarrow> x \<le> 180 \<Longrightarrow> normalizeClickedLon x = x"
  by (simp add: normalizeClickedLon_def)

lemma normalizeClickedLon_200: "normalizeClickedLon 200 = -160"
  by (simp add: normalizeClickedLon_def js_rem_def js_trunc_def)

lemma normalizeClickedLon_neg200: "normalizeClickedLon (-200) = 160"
  by (simp add: normalizeClickedLon_def js_rem_def js_trunc_def)

text \<open>
  Claim C8.  The longitude folding of the map-click handler leaves a longitude in
  \<open>[-180, 180]\<close> unchanged, is idempotent, sends 200 to -160 and -200 to 160, and
  its result lies in \<open>[-180, 180]\<close> for every real longitude; the result is what the
  click handler stores in the marker and, printed with six decimals, in the
  longitude field.
\<close>

theorem click_longitude_normalized:
  "(-180 \<le> x \<and> x \<le> 180 \<longrightarrow> normalizeClickedLon x = x)
   \<and> normalizeClickedLon (normalizeClickedLon x) = normalizeClickedLon x
   \<and> normalizeClickedLon 200 = -160
   \<and> normalizeClickedLon (-200) = 160
   \<and> -180 \<le> normalizeClickedLon x \<and> normalizeClickedLon x \<le> 180
   \<and> markerPosition (MapClickEventHandler lat x s) = Some (Num lat, Num (normalizeClickedLon x))
   \<and> longitude (MapClickEventHandler lat x s) = toFixed 6 (normalizeClickedLon x)"
proof -
  have range: "-180 \<le> normalizeClickedLon x \<and> normalizeClickedLon x \<le> 180"
    by (rule normalizeClickedLon_range)
  then have idem: "normalizeClickedLon (normalizeClickedLon x) = normalizeClickedLon x"
    by (simp add: normalizeClickedLon_fixed)
  have click: "markerPosition (MapClickEventHandler lat x s) = Some (Num lat, Num (normalizeClickedLon x))"
    "longitude (MapClickEventHandler lat x s) = toFixed 6 (normalizeClickedLon x)"
    by (simp_all add: MapClickEventHandler_def Let_def)
  show ?thesis
    using range idem click normalizeClickedLon_200 normalizeClickedLon_neg200
    by (simp add: normalizeClickedLon_fixed)
qed

theorem click_longitude_normalized_witness:
  "-180 \<le> (45::real) \<and> (45::real) \<le> 180 \<and> normalizeClickedLon 45 = 45
   \<and> normalizeClickedLon (normalizeClickedLon 560) = normalizeClickedLon 560
   \<and> longitude (MapClickEventHandler 10 200 initialState) = ''-160.000000''"
proof -
  have n: "toFixed_scaled 6 (-160) = 160000000"
    by (simp add: toFixed_scaled_def)
  have sn: "show_nat 160 = ''160''"
    by code_simp
  have fd: "fixed_digits 6 0 = ''000000''"
    by code_simp
  have f: "toFixed 6 (-160) = ''-160.000000''"
    by (simp add: toFixed_def n sn fd)
  show ?thesis
    using click_longitude_normalized [of 45 10 initialState] click_longitude_normalized [of 560]
      click_longitude_normalized [of 200 10 initialState] f
    by simp
qed

section \<open>Rounding to doubles\<close>

lemma two_powi_mono: "m \<le> n \<Longrightarrow> (2::real) powi m \<le> 2 powi n"
  by (rule power_int_increasing) simp_all

lemma two_powi_strict_mono: "m < n \<Longrightarrow> (2::real) powi m < 2 powi n"
  by (rule power_int_strict_increasing) simp_all

lemma two_powi_le_imp_le:
  assumes "(2::real) powi m \<le> a" and "a < 2 powi n"
  shows "m < n"
proof (rule ccontr)
  assume "\<not> m < n"
  then have "(2::real) powi n \<le> 2 powi m" by (intro two_powi_mono) simp
  with assms show False by simp
qed

lemma binade_search_hit:
  assumes "-1022 \<le> e" and "e < int k - 1022" and "2 powi e \<le> a" and "a < 2 powi (e + 1)"
  shows "binade_search k a = e"
  using assms(2)
proof (induction k)
  case 0
  with assms(1) show ?case by simp
next
  case (Suc k)
  show ?case
  proof (cases "e = int k - 1022")
    case True
    with assms(3) show ?thesis by simp
  next
    case False
    with Suc.prems have lt: "e < int k - 1022" by simp
    then have "(2::real) powi (e + 1) \<le> 2 powi (int k - 1022)"
      by (intro two_powi_mono) simp
    with assms(4) have "\<not> 2 powi (int k - 1022) \<le> a" by simp
    with Suc.IH [OF lt] show ?thesis by simp
  qed
qed

lemma binade_search_range: "binade_search k a = -1022 \<or> 2 powi (binade_search k a) \<le> a"
  by (induction k) simp_all

lemma binade_search_lower: "-1022 \<le> binade_search k a"
  by (induction k) simp_all

lemma double_exponent_eq:
  assumes "-1022 \<le> e" and "e \<le> 1023" and "2 powi e \<le> a" and "a < 2 powi (e + 1)"
  shows "double_exponent a = e"
  unfolding double_exponent_def
  by (rule binade_search_hit [OF assms(1) _ assms(3,4)]) (use assms(2) in simp)

lemma double_exponent_less:
  assumes "a < 2 powi (e + 1)" and "-1022 \<le> e"
  shows "double_exponent a \<le> e"
proof -
  from binade_search_range [of 2046 a]
  have "double_exponent a = -1022 \<or> 2 powi (double_exponent a) \<le> a"
    by (simp add: double_exponent_def)
  then show ?thesis
  proof
    assume "double_exponent a = -1022"
    with assms(2) show ?thesis by simp
  next
    assume "2 powi (double_exponent a) \<le> a"
    from two_powi_le_imp_le [OF this assms(1)] show ?thesis by simp
  qed
qed

lemma double_exponent_lower: "-1022 \<le> double_exponent a"
  by (simp add: double_exponent_def binade_search_lower)

lemma round_half_even_of_int: "round_half_even (of_int n) = n"
  by (simp add: round_half_even_def)

lemma round_half_even_le:
  assumes "y \<le> of_int m"
  shows "round_half_even y \<le> m"
proof -
  have f: "\<lfloor>y\<rfloor> \<le> m" using assms by (simp add: floor_le_iff)
  show ?thesis
  proof (cases "y - of_int \<lfloor>y\<rfloor> < 1 / 2")
    case True
    with f show ?thesis by (simp add: round_half_even_def Let_def)
  next
    case False
    then have "of_int \<lfloor>y\<rfloor> < y" by linarith
    with assms have "of_int \<lfloor>y\<rfloor> < (of_int m :: real)" by linarith
    then have "\<lfloor>y\<rfloor> < m" by simp
    then show ?thesis by (simp add: round_half_even_def Let_def)
  qed
qed

lemma round_half_even_ge:
  assumes "of_int m \<le> y"
  shows "m \<le> round_half_even y"
proof -
  have "m \<le> \<lfloor>y\<rfloor>" using assms by (simp add: le_floor_iff)
  then show ?thesis by (simp add: round_half_even_def Let_def)
qed

lemma two_powi_split:
  assumes "q \<le> k"
  shows "(2::real) powi k = of_int (2 ^ nat (k - q)) * 2 powi q"
proof -
  have "(2::real) powi k = 2 powi ((k - q) + q)" by simp
  also have "\<dots> = 2 powi (k - q) * 2 powi q" by (rule power_int_add) simp
  also have "(2::real) powi (k - q) = 2 ^ nat (k - q)"
    using assms by (simp add: power_int_nonneg_exp)
  finally show ?thesis by simp
qed

lemma nearest_double_le:
  assumes "x \<le> of_int m * 2 powi k" and "double_exponent \<bar>x\<bar> - 52 \<le> k"
  shows "nearest_double x \<le> of_int m * 2 powi k"
proof -
  let ?q = "double_exponent \<bar>x\<bar> - 52"
  have pos: "(0::real) < 2 powi ?q" by simp
  have k: "(2::real) powi k = of_int (2 ^ nat (k - ?q)) * 2 powi ?q"
    by (rule two_powi_split [OF assms(2)])
  have c: "of_int m * 2 powi k = of_int (m * 2 ^ nat (k - ?q)) * (2::real) powi ?q"
    by (subst k) simp
  from assms(1) have "x / 2 powi ?q \<le> of_int (m * 2 ^ nat (k - ?q))"
    unfolding c using pos by (simp add: field_simps)
  then have "round_half_even (x / 2 powi ?q) \<le> m * 2 ^ nat (k - ?q)"
    by (rule round_half_even_le)
  then have "(of_int (round_half_even (x / 2 powi ?q)) :: real) \<le> of_int (m * 2 ^ nat (k - ?q))"
    by (simp only: of_int_le_iff)
  then have "of_int (round_half_even (x / 2 powi ?q)) * 2 powi ?q
      \<le> of_int (m * 2 ^ nat (k - ?q)) * (2::real) powi ?q"
    using pos by (intro mult_right_mono) simp_all
  then show ?thesis
    unfolding c by (simp add: nearest_double_def Let_def)
qed

lemma nearest_double_ge:
  assumes "of_int m * 2 powi k \<le> x" and "double_exponent \<bar>x\<bar> - 52 \<le> k"
  shows "of_int m * 2 powi k \<le> nearest_double x"
proof -
  let ?q = "double_exponent \<bar>x\<bar> - 52"
  have pos: "(0::real) < 2 powi ?q" by simp
  have k: "(2::real) powi k = of_int (2 ^ nat (k - ?q)) * 2 powi ?q"
    by (rule two_powi_split [OF assms(2)])
  have c: "of_int m * 2 powi k = of_int (m * 2 ^ nat (k - ?q)) * (2::real) powi ?q"
    by (subst k) simp
  from assms(1) have "of_int (m * 2 ^ nat (k - ?q)) \<le> x / 2 powi ?q"
    unfolding c using pos by (simp add: field_simps)
  then have "m * 2 ^ nat (k - ?q) \<le> round_half_even (x / 2 powi ?q)"
    by (rule round_half_even_ge)
  then have "(of_int (m * 2 ^ nat (k - ?q)) :: real) \<le> of_int (round_half_even (x / 2 powi ?q))"
    by (simp only: of_int_le_iff)
  then have "of_int (m * 2 ^ nat (k - ?q)) * (2::real) powi ?q
      \<le> of_int (round_half_even (x / 2 powi ?q)) * 2 powi ?q"
    using pos by (intro mult_right_mono) simp_all
  then show ?thesis
    unfolding c by (simp add: nearest_double_def Let_def)
qed

lemma nearest_double_eval:
  assumes "-1022 \<le> e" and "e \<le> 1023" and "2 powi e \<le> \<bar>x\<bar>" and "\<bar>x\<bar> < 2 powi (e + 1)"
  shows "nearest_double x = of_int (round_half_even (x / 2 powi (e - 52))) * 2 powi (e - 52)"
  by (simp add: nearest_double_def Let_def double_exponent_eq [OF assms])

lemma nearest_double_exact:
  assumes "-1022 \<le> e" and "e \<le> 1023" and "2 powi e \<le> \<bar>x\<bar>" and "\<bar>x\<bar> < 2 powi (e + 1)"
    and "x = of_int m * 2 powi (e - 52)"
  shows "nearest_double x = x"
proof -
  have d: "x / 2 powi (e - 52) = of_int m"
    by (simp add: assms(5))
  have "nearest_double x = of_int (round_half_even (x / 2 powi (e - 52))) * 2 powi (e - 52)"
    by (rule nearest_double_eval [OF assms(1-4)])
  also have "\<dots> = of_int m * 2 powi (e - 52)"
    by (simp only: d round_half_even_of_int)
  also have "\<dots> = x"
    by (simp only: assms(5))
  finally show ?thesis .
qed

lemma nearest_double_unit:
  assumes "-1 \<le> x" and "x \<le> 1"
  shows "-1 \<le> nearest_double x" and "nearest_double x \<le> 1"
proof -
  from assms have "\<bar>x\<bar> < 2 powi (0 + 1)" by simp
  then have "double_exponent \<bar>x\<bar> \<le> 0" by (rule double_exponent_less) simp
  then have q: "double_exponent \<bar>x\<bar> - 52 \<le> 0" by simp
  from nearest_double_le [of x 1 0] assms(2) q show "nearest_double x \<le> 1" by simp
  from nearest_double_ge [of "-1" 0 x] assms(1) q show "-1 \<le> nearest_double x" by simp
qed

lemma number_value_unit:
  assumes "-1 \<le> x" and "x \<le> 1"
  shows "\<exists>y. number_value x = Num y \<and> -1 \<le> y \<and> y \<le> 1"
proof -
  note b = nearest_double_unit [OF assms]
  then have "\<bar>nearest_double x\<bar> \<le> 1" by (simp add: abs_le_iff)
  moreover have "(1::real) < 2 powi 1024" by simp
  ultimately have "\<not> 2 powi 1024 \<le> \<bar>nearest_double x\<bar>" by linarith
  then have "number_value x = Num (nearest_double x)"
    by (simp add: number_value_def Let_def)
  with b show ?thesis by blast
qed


lemma round_half_even_near:
  assumes "\<bar>y - of_int n\<bar> < 1 / 2"
  shows "round_half_even y = n"
proof (cases "of_int n \<le> y")
  case True
  with assms have "\<lfloor>y\<rfloor> = n" by (intro floor_unique) linarith+
  with assms True show ?thesis by (simp add: round_half_even_def Let_def)
next
  case False
  have m: "(of_int (n - 1) :: real) = of_int n - 1" by simp
  from assms False have f: "\<lfloor>y\<rfloor> = n - 1"
    unfolding m [symmetric] by (intro floor_unique) (unfold m, linarith+)
  from assms False have "1 / 2 < y - of_int (n - 1)" unfolding m by linarith
  with f show ?thesis by (simp add: round_half_even_def Let_def)
qed

lemma number_value_eval:
  assumes "-1022 \<le> e" and "e \<le> 1023" and "2 powi e \<le> \<bar>x\<bar>" and "\<bar>x\<bar> < 2 powi (e + 1)"
    and "round_half_even (x / 2 powi (e - 52)) = n"
    and "\<bar>of_int n * 2 powi (e - 52)\<bar> < (2::real) powi 1024"
  shows "number_value x = Num (of_int n * 2 powi (e - 52))"
proof -
  have "nearest_double x = of_int n * 2 powi (e - 52)"
    by (simp only: nearest_double_eval [OF assms(1-4)] assms(5))
  with assms(6) show ?thesis
    by (simp add: number_value_def Let_def)
qed

lemma number_value_zero: "number_value 0 = Num 0"
  by (simp add: number_value_def nearest_double_def round_half_even_def Let_def)

section \<open>Concrete numbers and sessions\<close>

lemmas parse_defs = parseFloat_def parse_sign_def is_space1_def is_space2_def is_space3_def
  is_digit_def digits_val_def digit_val_def scale10_def parse_exponent_def

text \<open>The doubles nearest to 35.4393 and to -82.2465.\<close>

lemma number_value_lat0: "number_value (354393 / 10 ^ 4) = Num (19482961215121 / 549755813888)"
proof -
  have "number_value (354393 / 10 ^ 4) = Num (of_int 4987638071070976 * 2 powi (5 - 52))"
  proof (rule number_value_eval)
    show "round_half_even (354393 / 10 ^ 4 / 2 powi (5 - 52)) = 4987638071070976"
      by (rule round_half_even_near) simp
  qed simp_all
  then show ?thesis by simp
qed

lemma number_value_lon0:
  "number_value (- (822465 / 10 ^ 4)) = Num (- (2893791459004121 / 35184372088832))"
proof -
  have "number_value (- (822465 / 10 ^ 4)) = Num (of_int (- 5787582918008242) * 2 powi (6 - 52))"
  proof (rule number_value_eval)
    show "round_half_even (- (822465 / 10 ^ 4) / 2 powi (6 - 52)) = - 5787582918008242"
      by (rule round_half_even_near) simp
  qed simp_all
  then show ?thesis by simp
qed

lemma number_value_10: "number_value 10 = Num 10"
proof -
  have "number_value 10 = Num (of_int 5629499534213120 * 2 powi (3 - 52))"
  proof (rule number_value_eval)
    show "round_half_even (10 / 2 powi (3 - 52)) = 5629499534213120"
      by (rule round_half_even_near) simp
  qed simp_all
  then show ?thesis by simp
qed

lemma number_value_20: "number_value 20 = Num 20"
proof -
  have "number_value 20 = Num (of_int 5629499534213120 * 2 powi (4 - 52))"
  proof (rule number_value_eval)
    show "round_half_even (20 / 2 powi (4 - 52)) = 5629499534213120"
      by (rule round_half_even_near) simp
  qed simp_all
  then show ?thesis by simp
qed

lemma number_value_95: "number_value 95 = Num 95"
proof -
  have "number_value 95 = Num (of_int 6685030696878080 * 2 powi (6 - 52))"
  proof (rule number_value_eval)
    show "round_half_even (95 / 2 powi (6 - 52)) = 6685030696878080"
      by (rule round_half_even_near) simp
  qed simp_all
  then show ?thesis by simp
qed

lemma number_value_neg200: "number_value (- 200) = Num (- 200)"
proof -
  have "number_value (- 200) = Num (of_int (- 7036874417766400) * 2 powi (7 - 52))"
  proof (rule number_value_eval)
    show "round_half_even (- 200 / 2 powi (7 - 52)) = - 7036874417766400"
      by (rule round_half_even_near) simp
  qed simp_all
  then show ?thesis by simp
qed

text \<open>The decimal 90.00000000000000001 is nearer to the double 90 than to the next
  double above it.\<close>

lemma number_value_just_above_90: "number_value (9000000000000000001 / 10 ^ 17) = Num 90"
proof -
  have "number_value (9000000000000000001 / 10 ^ 17)
      = Num (of_int 6333186975989760 * 2 powi (6 - 52))"
  proof (rule number_value_eval)
    show "round_half_even (9000000000000000001 / 10 ^ 17 / 2 powi (6 - 52)) = 6333186975989760"
      by (rule round_half_even_near) simp
  qed simp_all
  then show ?thesis by simp
qed

lemma parseFloat_lat0: "parseFloat ''35.4393'' = Num (19482961215121 / 549755813888)"
  using number_value_lat0 by (simp add: parse_defs)

lemma parseFloat_lon0: "parseFloat ''-82.2465'' = Num (- (2893791459004121 / 35184372088832))"
  using number_value_lon0 by (simp add: parse_defs)

lemma parseFloat_10: "parseFloat ''10'' = Num 10"
  using number_value_10 by (simp add: parse_defs)

lemma parseFloat_20: "parseFloat ''20'' = Num 20"
  using number_value_20 by (simp add: parse_defs)

lemma parseFloat_95: "parseFloat ''95'' = Num 95"
  using number_value_95 by (simp add: parse_defs)

lemma parseFloat_neg200: "parseFloat ''-200'' = Num (- 200)"
  using number_value_neg200 by (simp add: parse_defs)

lemma parseFloat_just_above_90: "parseFloat ''90.00000000000000001'' = Num 90"
  using number_value_just_above_90 by (simp add: parse_defs)

lemma parseFloat_abc: "parseFloat ''abc'' = NaN"
  by (simp add: parse_defs)

lemma parseFloat_empty: "parseFloat [] = NaN"
  by (simp add: parse_defs)

lemma mountedState_eq:
  "mountedState =
     initialState\<lparr> mapCenter := Some (Num (19482961215121 / 549755813888),
                                        Num (- (2893791459004121 / 35184372088832))),
                   markerPosition := Some (Num (19482961215121 / 549755813888),
                                           Num (- (2893791459004121 / 35184372088832))) \<rparr>"
  by (simp add: mountedState_def latLonEffect_def initialState_def parseFloat_lat0 parseFloat_lon0
      js_gt_def js_ge_def js_le_def keepCenter_def Let_def)

section \<open>Submitting: general facts\<close>

lemma js_seq_eq: "js_seq a b \<Longrightarrow> a = b"
  by (cases a; cases b) simp_all

lemma keepCenter_value: "keepCenter prev a b = Some (a, b)"
  by (auto simp: keepCenter_def dest: js_seq_eq split: option.splits)

lemma newErrors_FLatitude:
  "newErrors s FLatitude =
     (if isNaN (parseFloat (latitude s)) \<or> latitude s = []
      then Some (Some ''Latitude is required and must be a number.'')
      else if js_lt (parseFloat (latitude s)) (Num (-90)) \<or> js_gt (parseFloat (latitude s)) (Num 90)
      then Some (Some ''Must be between -90 and 90.'')
      else None)"
  by (simp add: newErrors_def Let_def)

lemma newErrors_FLongitude:
  "newErrors s FLongitude =
     (if isNaN (parseFloat (longitude s)) \<or> longitude s = []
      then Some (Some ''Longitude is required and must be a number.'')
      else if js_lt (parseFloat (longitude s)) (Num (-180)) \<or> js_gt (parseFloat (longitude s)) (Num 180)
      then Some (Some ''Must be between -180 and 180.'')
      else None)"
  by (simp add: newErrors_def Let_def)

lemma newErrors_FDate1:
  "newErrors s FDate1 = (if date1 s = [] then Some (Some ''Date 1 is required.'') else None)"
  by (simp add: newErrors_def Let_def)

lemma newErrors_FDate2:
  "newErrors s FDate2 = (if date2 s = [] then Some (Some ''Date 2 is required.'') else None)"
  by (simp add: newErrors_def Let_def)

lemmas newErrors_at = newErrors_FLatitude newErrors_FLongitude newErrors_FDate1 newErrors_FDate2

lemma errors_handleSubmit_start: "errors (handleSubmit_start s) = newErrors s"
  by (simp add: handleSubmit_start_def Let_def)

lemma handleSubmit_invalid:
  "has_keys (newErrors s) \<Longrightarrow> handleSubmit out s = Inr (handleSubmit_start s)"
  by (simp add: handleSubmit_def)

lemma handleSubmit_start_invalid:
  assumes "has_keys (newErrors s)"
  shows "image1Info (handleSubmit_start s) = None"
    and "image2Info (handleSubmit_start s) = None"
    and "apiError (handleSubmit_start s) = []"
    and "mapCenter (handleSubmit_start s) = None"
    and "markerPosition (handleSubmit_start s) = None"
    and "isLoading (handleSubmit_start s) = isLoading s"
  using assms by (simp_all add: handleSubmit_start_def Let_def)

lemma handleSubmit_start_valid:
  assumes "\<not> has_keys (newErrors s)"
  shows "isLoading (handleSubmit_start s) = True"
    and "image1Info (handleSubmit_start s) = None"
    and "image2Info (handleSubmit_start s) = None"
    and "apiError (handleSubmit_start s) = []"
    and "mapCenter (handleSubmit_start s) = mapCenter s"
    and "markerPosition (handleSubmit_start s) = markerPosition s"
  using assms by (simp_all add: handleSubmit_start_def Let_def)

lemma handleSubmit_valid:
  "\<not> has_keys (newErrors s) \<Longrightarrow>
     handleSubmit out s =
       handleSubmit_settle (parseFloat (latitude s)) (parseFloat (longitude s)) out
         (handleSubmit_start s)"
  by (simp add: handleSubmit_def)

lemma fetch_data_not_ok:
  "\<not> ok r \<Longrightarrow> fetch_data (Inr r) =
     Inl (if responseText r \<noteq> [] then responseText r
          else ''HTTP error! Status: '' @ show_nat (status r))"
  by (simp add: fetch_data_def)

lemma keepImage_None: "keepImage None incoming = Inr incoming"
  by (simp add: keepImage_def)

lemma keepImage_Some:
  "keepImage (Some p) (Some n) =
     Inr (Some (if imageUrl p = imageUrl n \<and> bounds p = bounds n then p else n))"
  by (simp add: keepImage_def same_stringify_def)

lemma handleSubmit_settle_failure:
  "fetch_data out = Inl msg \<Longrightarrow>
     handleSubmit_settle a b out s =
       Inr (s\<lparr> apiError := msg, mapCenter := None, markerPosition := None, isLoading := False \<rparr>)"
  by (simp add: handleSubmit_settle_def)

lemma handleSubmit_settle_success:
  assumes "fetch_data out = Inr (Some data)"
    and "keepImage (image1Info s) (image1 data) = Inr i1"
    and "keepImage (image2Info s) (image2 data) = Inr i2"
  shows "handleSubmit_settle a b out s =
       Inr (s\<lparr> image1Info := i1, image2Info := i2, mapCenter := Some (a, b),
               markerPosition := Some (a, b), isLoading := False \<rparr>)"
  using assms by (simp add: handleSubmit_settle_def keepCenter_value)

lemma handleSubmit_success:
  assumes "\<not> has_keys (newErrors s)" and "fetch_data out = Inr (Some data)"
  shows "handleSubmit out s =
       Inr ((handleSubmit_start s)\<lparr> image1Info := image1 data, image2Info := image2 data,
              mapCenter := Some (parseFloat (latitude s), parseFloat (longitude s)),
              markerPosition := Some (parseFloat (latitude s), parseFloat (longitude s)),
              isLoading := False \<rparr>)"
proof -
  note start = handleSubmit_start_valid [OF assms(1)]
  have k1: "keepImage (image1Info (handleSubmit_start s)) (image1 data) = Inr (image1 data)"
    by (simp add: start keepImage_None)
  have k2: "keepImage (image2Info (handleSubmit_start s)) (image2 data) = Inr (image2 data)"
    by (simp add: start keepImage_None)
  show ?thesis
    by (simp only: handleSubmit_valid [OF assms(1)] handleSubmit_settle_success [OF assms(2) k1 k2])
qed

lemma handleSubmit_failure:
  assumes "\<not> has_keys (newErrors s)" and "fetch_data out = Inl msg"
  shows "handleSubmit out s =
       Inr ((handleSubmit_start s)\<lparr> apiError := msg, mapCenter := None,
              markerPosition := None, isLoading := False \<rparr>)"
  by (simp only: handleSubmit_valid [OF assms(1)] handleSubmit_settle_failure [OF assms(2)])

lemma fetch_data_example:
  "fetch_data (Inr example_response)
     = Inr (Some \<lparr> image1 = Some example_image1, image2 = Some example_image2 \<rparr>)"
  by (simp add: fetch_data_def ok_def example_response_def)

lemma fetch_data_example_again:
  "fetch_data (Inr example_response_again)
     = Inr (Some \<lparr> image1 = Some (example_image1\<lparr> objId := 3 \<rparr>),
                    image2 = Some (example_image2\<lparr> objId := 4 \<rparr>) \<rparr>)"
  by (simp add: fetch_data_def ok_def example_response_again_def)

lemma fetch_data_example_empty:
  "fetch_data (Inr example_empty_response) = Inr (Some \<lparr> image1 = None, image2 = None \<rparr>)"
  by (simp add: fetch_data_def ok_def example_empty_response_def)

section \<open>Concrete sessions\<close>

lemma newErrors_mounted: "\<not> has_keys (newErrors mountedState)"
  by (simp add: has_keys_def newErrors_at mountedState_eq initialState_def
      parseFloat_lat0 parseFloat_lon0 js_gt_def)

lemma handleSubmit_start_mounted:
  "handleSubmit_start mountedState = mountedState\<lparr> isLoading := True \<rparr>"
  by (simp add: handleSubmit_start_def Let_def has_keys_def newErrors_def mountedState_eq
      initialState_def parseFloat_lat0 parseFloat_lon0 js_gt_def)

lemma handleSubmit_example_scenario:
  "handleSubmit (Inr example_response) mountedState
     = Inr (mountedState\<lparr> image1Info := Some example_image1, image2Info := Some example_image2 \<rparr>)"
  by (simp add: handleSubmit_success [OF newErrors_mounted fetch_data_example]
      handleSubmit_start_mounted)
    (simp add: mountedState_eq initialState_def parseFloat_lat0 parseFloat_lon0)

lemma example_scenario_eq:
  "example_scenario =
     mountedState\<lparr> image1Info := Some example_image1, image2Info := Some example_image2 \<rparr>"
  by (simp add: example_scenario_def handleSubmit_example_scenario)

lemma example_invalid_eq:
  "example_invalid =
     initialState\<lparr> latitude := ''95'', date1 := '''',
       errors := [FLatitude \<mapsto> Some ''Must be between -90 and 90.'',
                  FDate1 \<mapsto> Some ''Date 1 is required.''] \<rparr>"
  by (simp add: example_invalid_def handleSubmit_start_def newErrors_def has_keys_def
      initialState_def parseFloat_95 parseFloat_lon0 js_gt_def Let_def)

lemma example_typed_10_20:
  "latLonEffect (handleLongitudeChange ''20'' (latLonEffect (handleLatitudeChange ''10'' mountedState)))
     = initialState\<lparr> latitude := ''10'', longitude := ''20'',
         mapCenter := Some (Num 10, Num 20), markerPosition := Some (Num 10, Num 20) \<rparr>"
  by (simp add: mountedState_eq handleLatitudeChange_def handleLongitudeChange_def
      latLonEffect_def error_shown_def initialState_def
      parseFloat_10 parseFloat_20 parseFloat_lat0 parseFloat_lon0
      js_gt_def js_ge_def js_le_def keepCenter_def Let_def)

lemma handleSubmit_example_loaded:
  "handleSubmit (Inr example_response)
     (latLonEffect (handleLongitudeChange ''20'' (latLonEffect (handleLatitudeChange ''10'' mountedState))))
     = Inr (initialState\<lparr> latitude := ''10'', longitude := ''20'',
         image1Info := Some example_image1, image2Info := Some example_image2,
         mapCenter := Some (Num 10, Num 20), markerPosition := Some (Num 10, Num 20) \<rparr>)"
proof -
  let ?s = "initialState\<lparr> latitude := ''10'', longitude := ''20'',
         mapCenter := Some (Num 10, Num 20), markerPosition := Some (Num 10, Num 20) \<rparr>"
  have v: "\<not> has_keys (newErrors ?s)"
    by (simp add: has_keys_def newErrors_at initialState_def parseFloat_10 parseFloat_20 js_gt_def)
  have st: "handleSubmit_start ?s = ?s\<lparr> isLoading := True \<rparr>"
    by (simp add: handleSubmit_start_def Let_def has_keys_def newErrors_def initialState_def
        parseFloat_10 parseFloat_20 js_gt_def)
  show ?thesis
    unfolding example_typed_10_20 handleSubmit_success [OF v fetch_data_example] st
    by (simp add: parseFloat_10 parseFloat_20 initialState_def)
qed

lemma example_loaded_eq:
  "example_loaded =
     initialState\<lparr> latitude := ''10'', longitude := ''20'',
       image1Info := Some example_image1, image2Info := Some example_image2,
       mapCenter := Some (Num 10, Num 20), markerPosition := Some (Num 10, Num 20) \<rparr>"
  by (simp add: example_loaded_def handleSubmit_example_loaded)

section \<open>Editing a field\<close>

text \<open>
  Claim C10.  Each of the four edit handlers (latitude, longitude, date 1, date 2)
  stores the typed value in its own field and touches nothing but that field and the
  \<open>errors\<close> object: putting the old field value and the old \<open>errors\<close> back gives the
  session it started from, so images, API error, selection, computation results and all
  other cells are unchanged; and in \<open>errors\<close> every key other than the handler's own
  keeps its value.  The coordinate effect that React runs after a latitude or
  longitude edit changes the map center and the marker only.
\<close>

theorem edit_handlers_frame:
  "latitude (handleLatitudeChange v s) = v
   \<and> (handleLatitudeChange v s)\<lparr> latitude := latitude s, errors := errors s \<rparr> = s
   \<and> (\<forall>f. f \<noteq> FLatitude \<longrightarrow> errors (handleLatitudeChange v s) f = errors s f)
   \<and> longitude (handleLongitudeChange v s) = v
   \<and> (handleLongitudeChange v s)\<lparr> longitude := longitude s, errors := errors s \<rparr> = s
   \<and> (\<forall>f. f \<noteq> FLongitude \<longrightarrow> errors (handleLongitudeChange v s) f = errors s f)
   \<and> date1 (handleDate1Change v s) = v
   \<and> (handleDate1Change v s)\<lparr> date1 := date1 s, errors := errors s \<rparr> = s
   \<and> (\<forall>f. f \<noteq> FDate1 \<longrightarrow> errors (handleDate1Change v s) f = errors s f)
   \<and> date2 (handleDate2Change v s) = v
   \<and> (handleDate2Change v s)\<lparr> date2 := date2 s, errors := errors s \<rparr> = s
   \<and> (\<forall>f. f \<noteq> FDate2 \<longrightarrow> errors (handleDate2Change v s) f = errors s f)
   \<and> (latLonEffect s)\<lparr> mapCenter := mapCenter s, markerPosition := markerPosition s \<rparr> = s"
  by (simp add: handleLatitudeChange_def handleLongitudeChange_def handleDate1Change_def
      handleDate2Change_def latLonEffect_def Let_def)

theorem edit_handlers_frame_witness:
  "FDate1 \<noteq> FLatitude
   \<and> errors (handleLatitudeChange ''45'' example_invalid) FDate1 = Some (Some ''Date 1 is required.'')
   \<and> latitude (handleLatitudeChange ''45'' example_invalid) = ''45''
   \<and> FLatitude \<noteq> FDate1
   \<and> errors (handleDate1Change ''2024-01-01'' example_invalid) FLatitude
       = Some (Some ''Must be between -90 and 90.'')
   \<and> FLatitude \<noteq> FLongitude
   \<and> errors (handleLongitudeChange ''7'' example_invalid) FLatitude
       = Some (Some ''Must be between -90 and 90.'')
   \<and> FLatitude \<noteq> FDate2
   \<and> errors (handleDate2Change ''2024-01-02'' example_invalid) FLatitude
       = Some (Some ''Must be between -90 and 90.'')"
proof -
  have e: "errors example_invalid FDate1 = Some (Some ''Date 1 is required.'')"
    "errors example_invalid FLatitude = Some (Some ''Must be between -90 and 90.'')"
    by (simp_all add: example_invalid_eq)
  show ?thesis
    using edit_handlers_frame [of "''45''" example_invalid]
      edit_handlers_frame [of "''2024-01-01''" example_invalid]
      edit_handlers_frame [of "''7''" example_invalid]
      edit_handlers_frame [of "''2024-01-02''" example_invalid] e
    by simp
qed

section \<open>Reset\<close>

text \<open>
  Claim C5, as the program has it.  From any session, \<open>handleClearAndReset\<close> puts the
  images, the visibility of image 1, the validation errors, the API error, the loading
  flag, the selection, the computation results, the calculating flag and the visibility
  of the results back to their initial values, and leaves the four form fields, the
  cloud cover, the map center and the marker as they are.
\<close>

theorem handleClearAndReset_result:
  "handleClearAndReset s =
     initialState\<lparr> latitude := latitude s, longitude := longitude s, date1 := date1 s,
                   date2 := date2 s, cloudCover := cloudCover s,
                   mapCenter := mapCenter s, markerPosition := markerPosition s \<rparr>"
  by (simp add: handleClearAndReset_def initialState_def)

text \<open>
  Claim C5 as stated fails: after loading images at latitude 10, longitude 20, a reset
  leaves the marker at (10, 20), so the session is neither the initial one nor the
  one a fresh mount produces.
\<close>

theorem reset_keeps_marker_counterexample:
  "results_rendered example_loaded
   \<and> markerPosition (handleClearAndReset example_loaded) = Some (Num 10, Num 20)
   \<and> handleClearAndReset example_loaded \<noteq> initialState
   \<and> handleClearAndReset example_loaded \<noteq> mountedState"
proof -
  have m: "markerPosition (handleClearAndReset example_loaded) = Some (Num 10, Num 20)"
    by (simp add: example_loaded_eq handleClearAndReset_def)
  have r: "results_rendered example_loaded"
    by (simp add: example_loaded_eq results_rendered_def)
  have "markerPosition initialState = None"
    by (simp add: initialState_def)
  with m have a: "handleClearAndReset example_loaded \<noteq> initialState" by auto
  have "markerPosition mountedState
      = Some (Num (19482961215121 / 549755813888), Num (- (2893791459004121 / 35184372088832)))"
    by (simp add: mountedState_eq)
  with m have b: "handleClearAndReset example_loaded \<noteq> mountedState" by auto
  from r m a b show ?thesis by simp
qed

section \<open>Validation on submit\<close>

lemma js_lt_NaN_right [simp]: "js_lt a NaN = False"
  by (cases a) simp_all

lemma out_of_range_not_NaN:
  "js_lt a b \<or> js_gt a c \<Longrightarrow> \<not> isNaN a"
  by (cases a) (simp_all add: js_gt_def)

lemma example_bad_input_eq:
  "example_bad_input =
     example_loaded\<lparr> latitude := ''95'', longitude := ''-200'', date1 := '''',
                      markerPosition := None \<rparr>"
  by (simp add: example_bad_input_def example_loaded_eq handleLatitudeChange_def
      handleLongitudeChange_def handleDate1Change_def latLonEffect_def error_shown_def
      initialState_def parseFloat_95 parseFloat_20 parseFloat_neg200
      js_gt_def js_ge_def js_le_def keepCenter_def Let_def)

lemma example_missing_input_eq:
  "example_missing_input =
     mountedState\<lparr> latitude := '''', longitude := ''abc'', markerPosition := None \<rparr>"
  by (simp add: example_missing_input_def mountedState_eq handleLatitudeChange_def
      handleLongitudeChange_def latLonEffect_def error_shown_def
      initialState_def parseFloat_empty parseFloat_abc parseFloat_lon0
      js_gt_def js_ge_def js_le_def keepCenter_def Let_def)

lemma example_rounded_input_eq:
  "example_rounded_input =
     mountedState\<lparr> latitude := ''90.00000000000000001'',
                    mapCenter := Some (Num 90, Num (- (2893791459004121 / 35184372088832))),
                    markerPosition := Some (Num 90, Num (- (2893791459004121 / 35184372088832))) \<rparr>"
  by (simp add: example_rounded_input_def mountedState_eq handleLatitudeChange_def
      latLonEffect_def error_shown_def initialState_def
      parseFloat_just_above_90 parseFloat_lon0
      js_gt_def js_ge_def js_le_def keepCenter_def Let_def)

text \<open>
  Claim C3.  The submit handler sets the \<open>errors\<close> object before anything else.  A
  latitude that parses to a number below -90 or above 90 has the out-of-range message
  under the key \<open>latitude\<close>, and a latitude that is empty or does not parse has the other
  message; the same for longitude with -180 and 180.  Each of the four keys is set from
  its own field alone (latitude and longitude have an entry exactly when their own
  value is invalid, each date exactly when it is empty), so all errors are collected.
  Whenever there is any error, the handler returns without a request, and both images,
  the API error, the map center and the marker are cleared; when there is none, the
  loading flag is set for the request.
\<close>

theorem handleSubmit_validation:
  "(js_lt (parseFloat (latitude s)) (Num (-90)) \<or> js_gt (parseFloat (latitude s)) (Num 90)
      \<longrightarrow> errors (handleSubmit_start s) FLatitude = Some (Some ''Must be between -90 and 90.''))
   \<and> (isNaN (parseFloat (latitude s)) \<or> latitude s = []
      \<longrightarrow> errors (handleSubmit_start s) FLatitude
            = Some (Some ''Latitude is required and must be a number.''))
   \<and> (js_lt (parseFloat (longitude s)) (Num (-180)) \<or> js_gt (parseFloat (longitude s)) (Num 180)
      \<longrightarrow> errors (handleSubmit_start s) FLongitude = Some (Some ''Must be between -180 and 180.''))
   \<and> (isNaN (parseFloat (longitude s)) \<or> longitude s = []
      \<longrightarrow> errors (handleSubmit_start s) FLongitude
            = Some (Some ''Longitude is required and must be a number.''))
   \<and> (errors (handleSubmit_start s) FLatitude \<noteq> None
      \<longleftrightarrow> isNaN (parseFloat (latitude s)) \<or> latitude s = []
          \<or> js_lt (parseFloat (latitude s)) (Num (-90)) \<or> js_gt (parseFloat (latitude s)) (Num 90))
   \<and> (errors (handleSubmit_start s) FLongitude \<noteq> None
      \<longleftrightarrow> isNaN (parseFloat (longitude s)) \<or> longitude s = []
          \<or> js_lt (parseFloat (longitude s)) (Num (-180)) \<or> js_gt (parseFloat (longitude s)) (Num 180))
   \<and> errors (handleSubmit_start s) FDate1
       = (if date1 s = [] then Some (Some ''Date 1 is required.'') else None)
   \<and> errors (handleSubmit_start s) FDate2
       = (if date2 s = [] then Some (Some ''Date 2 is required.'') else None)
   \<and> (has_keys (errors (handleSubmit_start s))
      \<longrightarrow> handleSubmit out s = Inr (handleSubmit_start s)
          \<and> image1Info (handleSubmit_start s) = None \<and> image2Info (handleSubmit_start s) = None
          \<and> apiError (handleSubmit_start s) = [] \<and> mapCenter (handleSubmit_start s) = None
          \<and> markerPosition (handleSubmit_start s) = None
          \<and> isLoading (handleSubmit_start s) = isLoading s)
   \<and> (\<not> has_keys (errors (handleSubmit_start s)) \<longrightarrow> isLoading (handleSubmit_start s))"
proof -
  have lat_empty: "latitude s = [] \<Longrightarrow> isNaN (parseFloat (latitude s))"
    by (simp add: parseFloat_empty)
  have lon_empty: "longitude s = [] \<Longrightarrow> isNaN (parseFloat (longitude s))"
    by (simp add: parseFloat_empty)
  have lat_range: "errors (handleSubmit_start s) FLatitude = Some (Some ''Must be between -90 and 90.'')"
    if "js_lt (parseFloat (latitude s)) (Num (-90)) \<or> js_gt (parseFloat (latitude s)) (Num 90)"
  proof -
    from that have "\<not> isNaN (parseFloat (latitude s))" by (rule out_of_range_not_NaN)
    with lat_empty have "\<not> (isNaN (parseFloat (latitude s)) \<or> latitude s = [])" by blast
    with that show ?thesis by (simp add: errors_handleSubmit_start newErrors_FLatitude)
  qed
  have lon_range: "errors (handleSubmit_start s) FLongitude = Some (Some ''Must be between -180 and 180.'')"
    if "js_lt (parseFloat (longitude s)) (Num (-180)) \<or> js_gt (parseFloat (longitude s)) (Num 180)"
  proof -
    from that have "\<not> isNaN (parseFloat (longitude s))" by (rule out_of_range_not_NaN)
    with lon_empty have "\<not> (isNaN (parseFloat (longitude s)) \<or> longitude s = [])" by blast
    with that show ?thesis by (simp add: errors_handleSubmit_start newErrors_FLongitude)
  qed
  have lat_nan: "errors (handleSubmit_start s) FLatitude = Some (Some ''Latitude is required and must be a number.'')"
    if "isNaN (parseFloat (latitude s)) \<or> latitude s = []"
    using that by (simp add: errors_handleSubmit_start newErrors_FLatitude)
  have lon_nan: "errors (handleSubmit_start s) FLongitude = Some (Some ''Longitude is required and must be a number.'')"
    if "isNaN (parseFloat (longitude s)) \<or> longitude s = []"
    using that by (simp add: errors_handleSubmit_start newErrors_FLongitude)
  have lat_iff: "errors (handleSubmit_start s) FLatitude \<noteq> None
      \<longleftrightarrow> isNaN (parseFloat (latitude s)) \<or> latitude s = []
          \<or> js_lt (parseFloat (latitude s)) (Num (-90)) \<or> js_gt (parseFloat (latitude s)) (Num 90)"
    by (simp add: errors_handleSubmit_start newErrors_FLatitude)
  have lon_iff: "errors (handleSubmit_start s) FLongitude \<noteq> None
      \<longleftrightarrow> isNaN (parseFloat (longitude s)) \<or> longitude s = []
          \<or> js_lt (parseFloat (longitude s)) (Num (-180)) \<or> js_gt (parseFloat (longitude s)) (Num 180)"
    by (simp add: errors_handleSubmit_start newErrors_FLongitude)
  have d1: "errors (handleSubmit_start s) FDate1
       = (if date1 s = [] then Some (Some ''Date 1 is required.'') else None)"
    by (simp add: errors_handleSubmit_start newErrors_FDate1)
  have d2: "errors (handleSubmit_start s) FDate2
       = (if date2 s = [] then Some (Some ''Date 2 is required.'') else None)"
    by (simp add: errors_handleSubmit_start newErrors_FDate2)
  have cleared: "handleSubmit out s = Inr (handleSubmit_start s)
          \<and> image1Info (handleSubmit_start s) = None \<and> image2Info (handleSubmit_start s) = None
          \<and> apiError (handleSubmit_start s) = [] \<and> mapCenter (handleSubmit_start s) = None
          \<and> markerPosition (handleSubmit_start s) = None
          \<and> isLoading (handleSubmit_start s) = isLoading s"
    if "has_keys (errors (handleSubmit_start s))"
  proof -
    from that have k: "has_keys (newErrors s)" by (simp add: errors_handleSubmit_start)
    from handleSubmit_invalid [OF k] handleSubmit_start_invalid [OF k] show ?thesis by simp
  qed
  have sent: "isLoading (handleSubmit_start s)" if "\<not> has_keys (errors (handleSubmit_start s))"
  proof -
    from that have k: "\<not> has_keys (newErrors s)" by (simp add: errors_handleSubmit_start)
    from handleSubmit_start_valid(1) [OF k] show ?thesis by simp
  qed
  from lat_range lat_nan lon_range lon_nan lat_iff lon_iff d1 d2 cleared sent
  show ?thesis by blast
qed

theorem handleSubmit_validation_witness:
  "js_gt (parseFloat (latitude example_bad_input)) (Num 90)
   \<and> errors (handleSubmit_start example_bad_input) FLatitude
       = Some (Some ''Must be between -90 and 90.'')
   \<and> js_lt (parseFloat (longitude example_bad_input)) (Num (-180))
   \<and> errors (handleSubmit_start example_bad_input) FLongitude
       = Some (Some ''Must be between -180 and 180.'')
   \<and> errors (handleSubmit_start example_bad_input) FDate1
       = Some (Some ''Date 1 is required.'')
   \<and> errors (handleSubmit_start example_bad_input) FDate2 = None
   \<and> has_keys (errors (handleSubmit_start example_bad_input))
   \<and> handleSubmit (Inr example_response) example_bad_input
       = Inr (handleSubmit_start example_bad_input)
   \<and> image1Info example_bad_input \<noteq> None
   \<and> image1Info (handleSubmit_start example_bad_input) = None
   \<and> mapCenter example_bad_input \<noteq> None
   \<and> mapCenter (handleSubmit_start example_bad_input) = None
   \<and> latitude example_missing_input = []
   \<and> errors (handleSubmit_start example_missing_input) FLatitude
       = Some (Some ''Latitude is required and must be a number.'')
   \<and> isNaN (parseFloat (longitude example_missing_input))
   \<and> errors (handleSubmit_start example_missing_input) FLongitude
       = Some (Some ''Longitude is required and must be a number.'')
   \<and> latitude example_rounded_input = ''90.00000000000000001''
   \<and> parseFloat (latitude example_rounded_input) = Num 90
   \<and> errors (handleSubmit_start example_rounded_input) FLatitude = None
   \<and> \<not> has_keys (errors (handleSubmit_start example_rounded_input))
   \<and> isLoading (handleSubmit_start example_rounded_input)"
proof -
  have a: "js_gt (parseFloat (latitude example_bad_input)) (Num 90)"
    by (simp add: example_bad_input_eq parseFloat_95 js_gt_def)
  have b: "js_lt (parseFloat (longitude example_bad_input)) (Num (-180))"
    by (simp add: example_bad_input_eq parseFloat_neg200)
  have c: "latitude example_missing_input = []"
    by (simp add: example_missing_input_eq)
  have d: "isNaN (parseFloat (longitude example_missing_input))"
    by (simp add: example_missing_input_eq parseFloat_abc)
  have e: "date1 example_bad_input = []" "date2 example_bad_input \<noteq> []"
    "image1Info example_bad_input \<noteq> None" "mapCenter example_bad_input \<noteq> None"
    by (simp_all add: example_bad_input_eq example_loaded_eq initialState_def)
  have r: "latitude example_rounded_input = ''90.00000000000000001''"
    "parseFloat (latitude example_rounded_input) = Num 90"
    "parseFloat (longitude example_rounded_input) = Num (- (2893791459004121 / 35184372088832))"
    "date1 example_rounded_input \<noteq> []" "date2 example_rounded_input \<noteq> []"
    "longitude example_rounded_input \<noteq> []"
    by (simp_all add: example_rounded_input_eq mountedState_eq initialState_def
        parseFloat_just_above_90 parseFloat_lon0)
  note t1 = handleSubmit_validation [of example_bad_input "Inr example_response"]
  note t2 = handleSubmit_validation [of example_missing_input "Inr example_response"]
  note t3 = handleSubmit_validation [of example_rounded_input "Inr example_response"]
  have k1: "has_keys (errors (handleSubmit_start example_bad_input))"
    using t1 a unfolding has_keys_def by blast
  have n3: "errors (handleSubmit_start example_rounded_input) FLatitude = None"
    "errors (handleSubmit_start example_rounded_input) FLongitude = None"
    "errors (handleSubmit_start example_rounded_input) FDate1 = None"
    "errors (handleSubmit_start example_rounded_input) FDate2 = None"
    using t3 r by (simp_all add: js_gt_def)
  then have k3: "\<not> has_keys (errors (handleSubmit_start example_rounded_input))"
    by (simp add: has_keys_def)
  show ?thesis
    using t1 t2 t3 a b c d e k1 r n3 k3 by simp
qed

section \<open>Resolving a request\<close>

lemma handleSubmit_example_empty:
  "handleSubmit (Inr example_empty_response) mountedState = Inr mountedState"
  by (simp add: handleSubmit_success [OF newErrors_mounted fetch_data_example_empty]
      handleSubmit_start_mounted)
    (simp add: mountedState_eq initialState_def parseFloat_lat0 parseFloat_lon0)

text \<open>
  Claim C4 as stated fails.  The mounted session is submitted and passes validation,
  so the loading flag is set; the response has status 200 and the body \<^verbatim>\<open>{}\<close>.  Nothing
  is thrown: the updaters store the absent descriptors.  The request has settled, the
  loading flag is cleared, and the session renders neither the result panel nor an error
  text.
\<close>

theorem empty_body_counterexample:
  "isLoading (handleSubmit_start mountedState)
   \<and> ok example_empty_response
   \<and> handleSubmit (Inr example_empty_response) mountedState = Inr example_empty_result
   \<and> \<not> isLoading example_empty_result
   \<and> \<not> results_rendered example_empty_result
   \<and> \<not> apiError_rendered example_empty_result
   \<and> apiError example_empty_result = []
   \<and> image1Info example_empty_result = None
   \<and> image2Info example_empty_result = None"
proof -
  have e: "example_empty_result = mountedState"
    by (simp add: example_empty_result_def handleSubmit_example_empty)
  have l: "isLoading (handleSubmit_start mountedState)"
    by (simp add: handleSubmit_start_mounted)
  have k: "ok example_empty_response"
    by (simp add: ok_def example_empty_response_def)
  have m: "\<not> isLoading mountedState" "apiError mountedState = []"
    "image1Info mountedState = None" "image2Info mountedState = None"
    by (simp_all add: mountedState_eq initialState_def)
  from l k m handleSubmit_example_empty show ?thesis
    by (simp add: e results_rendered_def apiError_rendered_def)
qed

text \<open>
  Claim C4, as the program has it.  A submit that passes validation sets the loading
  flag before the request.  When an error is caught (the request is rejected, the
  status is not a success status, or the body is not JSON) the session ends with the
  loading flag cleared, no result panel, the caught message as API error, and both
  images, the map center and the marker empty; for a status that is not a success
  status the message is the response body when that is non-empty and
  \<^verbatim>\<open>HTTP error! Status: \<close> followed by the status otherwise, so the error text is rendered.
  When the success body is not \<^verbatim>\<open>null\<close>, the session ends with the loading flag cleared,
  no API error, the marker at the request coordinate and the two image cells holding
  what the body has under \<^verbatim>\<open>image1\<close> and \<^verbatim>\<open>image2\<close>; the result panel is rendered exactly
  when both are present.
\<close>

theorem request_resolves:
  assumes "\<not> has_keys (newErrors s)"
  shows "isLoading (handleSubmit_start s)
   \<and> (\<forall>msg. fetch_data out = Inl msg \<longrightarrow>
        (\<exists>t. handleSubmit out s = Inr t \<and> \<not> isLoading t \<and> \<not> results_rendered t
           \<and> apiError t = msg \<and> image1Info t = None \<and> image2Info t = None
           \<and> mapCenter t = None \<and> markerPosition t = None))
   \<and> (\<forall>r. out = Inr r \<and> \<not> ok r \<longrightarrow>
        (\<exists>t. handleSubmit out s = Inr t \<and> \<not> isLoading t \<and> \<not> results_rendered t
           \<and> apiError t = (if responseText r \<noteq> [] then responseText r
                           else ''HTTP error! Status: '' @ show_nat (status r))
           \<and> apiError_rendered t
           \<and> mapCenter t = None \<and> markerPosition t = None))
   \<and> (\<forall>data. fetch_data out = Inr (Some data) \<longrightarrow>
        (\<exists>t. handleSubmit out s = Inr t \<and> \<not> isLoading t \<and> apiError t = []
           \<and> image1Info t = image1 data \<and> image2Info t = image2 data
           \<and> (results_rendered t \<longleftrightarrow> image1 data \<noteq> None \<and> image2 data \<noteq> None)
           \<and> markerPosition t = Some (parseFloat (latitude s), parseFloat (longitude s))))"
proof -
  note start = handleSubmit_start_valid [OF assms]
  have loading: "isLoading (handleSubmit_start s)" by (simp add: start)
  have caught: "\<exists>t. handleSubmit out s = Inr t \<and> \<not> isLoading t \<and> \<not> results_rendered t
           \<and> apiError t = msg \<and> image1Info t = None \<and> image2Info t = None
           \<and> mapCenter t = None \<and> markerPosition t = None"
    if "fetch_data out = Inl msg" for msg
    by (simp add: handleSubmit_failure [OF assms that] start results_rendered_def)
  have http: "\<exists>t. handleSubmit out s = Inr t \<and> \<not> isLoading t \<and> \<not> results_rendered t
           \<and> apiError t = (if responseText r \<noteq> [] then responseText r
                           else ''HTTP error! Status: '' @ show_nat (status r))
           \<and> apiError_rendered t
           \<and> mapCenter t = None \<and> markerPosition t = None"
    if "out = Inr r \<and> \<not> ok r" for r
  proof -
    from that have fd: "fetch_data out = Inl (if responseText r \<noteq> [] then responseText r
          else ''HTTP error! Status: '' @ show_nat (status r))"
      by (simp add: fetch_data_not_ok)
    show ?thesis
      by (simp add: handleSubmit_failure [OF assms fd] start results_rendered_def
          apiError_rendered_def)
  qed
  have stored: "\<exists>t. handleSubmit out s = Inr t \<and> \<not> isLoading t \<and> apiError t = []
           \<and> image1Info t = image1 data \<and> image2Info t = image2 data
           \<and> (results_rendered t \<longleftrightarrow> image1 data \<noteq> None \<and> image2 data \<noteq> None)
           \<and> markerPosition t = Some (parseFloat (latitude s), parseFloat (longitude s))"
    if "fetch_data out = Inr (Some data)" for data
    by (simp add: handleSubmit_success [OF assms that] start results_rendered_def)
  from loading caught http stored show ?thesis by blast
qed

theorem request_resolves_witness:
  "\<not> has_keys (newErrors mountedState)
   \<and> \<not> ok example_error_response
   \<and> (\<exists>t. handleSubmit (Inr example_error_response) mountedState = Inr t
         \<and> apiError t = ''HTTP error! Status: 500'' \<and> markerPosition t = None \<and> \<not> isLoading t)
   \<and> \<not> ok example_not_found_response
   \<and> (\<exists>t. handleSubmit (Inr example_not_found_response) mountedState = Inr t
         \<and> apiError t = ''No images found for the given dates.'')
   \<and> fetch_data (Inl ''Failed to fetch'') = Inl ''Failed to fetch''
   \<and> (\<exists>t. handleSubmit (Inl ''Failed to fetch'') mountedState = Inr t
         \<and> apiError t = ''Failed to fetch'' \<and> \<not> results_rendered t)
   \<and> fetch_data (Inr example_response)
       = Inr (Some \<lparr> image1 = Some example_image1, image2 = Some example_image2 \<rparr>)
   \<and> (\<exists>t. handleSubmit (Inr example_response) mountedState = Inr t
         \<and> results_rendered t \<and> apiError t = [] \<and> \<not> isLoading t)
   \<and> fetch_data (Inr example_empty_response) = Inr (Some \<lparr> image1 = None, image2 = None \<rparr>)
   \<and> (\<exists>t. handleSubmit (Inr example_empty_response) mountedState = Inr t
         \<and> \<not> results_rendered t \<and> apiError t = [] \<and> \<not> isLoading t)"
proof -
  have n: "show_nat 500 = ''500''" by code_simp
  have k: "\<not> ok example_error_response" "\<not> ok example_not_found_response"
    by (simp_all add: ok_def example_error_response_def example_not_found_response_def)
  have t: "responseText example_error_response = []" "status example_error_response = 500"
    "responseText example_not_found_response = ''No images found for the given dates.''"
    by (simp_all add: example_error_response_def example_not_found_response_def)
  have f: "fetch_data (Inl ''Failed to fetch'') = Inl ''Failed to fetch''"
    by (simp add: fetch_data_def)
  note r = request_resolves [OF newErrors_mounted]
  from r [of "Inr example_error_response"] k(1)
  have a: "\<exists>t. handleSubmit (Inr example_error_response) mountedState = Inr t
         \<and> apiError t = ''HTTP error! Status: 500'' \<and> markerPosition t = None \<and> \<not> isLoading t"
    by (simp add: t n) blast
  from r [of "Inr example_not_found_response"] k(2)
  have b: "\<exists>t. handleSubmit (Inr example_not_found_response) mountedState = Inr t
         \<and> apiError t = ''No images found for the given dates.''"
    by (simp add: t) blast
  from r [of "Inl ''Failed to fetch''"] f
  have c: "\<exists>t. handleSubmit (Inl ''Failed to fetch'') mountedState = Inr t
         \<and> apiError t = ''Failed to fetch'' \<and> \<not> results_rendered t"
    by simp blast
  from r [of "Inr example_response"] fetch_data_example
  have d: "\<exists>t. handleSubmit (Inr example_response) mountedState = Inr t
         \<and> results_rendered t \<and> apiError t = [] \<and> \<not> isLoading t"
    by simp blast
  from r [of "Inr example_empty_response"] fetch_data_example_empty
  have e: "\<exists>t. handleSubmit (Inr example_empty_response) mountedState = Inr t
         \<and> \<not> results_rendered t \<and> apiError t = [] \<and> \<not> isLoading t"
    by simp blast
  from newErrors_mounted k a b c d e f fetch_data_example fetch_data_example_empty
  show ?thesis by blast
qed

section \<open>Reconciling the images of a response\<close>

lemma newErrors_example_scenario: "\<not> has_keys (newErrors example_scenario)"
  by (simp add: has_keys_def newErrors_at example_scenario_eq mountedState_eq initialState_def
      parseFloat_lat0 parseFloat_lon0 js_gt_def)

lemma handleSubmit_example_resubmitted:
  "handleSubmit (Inr example_response_again) example_scenario
     = Inr (mountedState\<lparr> image1Info := Some (example_image1\<lparr> objId := 3 \<rparr>),
                           image2Info := Some (example_image2\<lparr> objId := 4 \<rparr>) \<rparr>)"
proof -
  have st: "handleSubmit_start example_scenario = mountedState\<lparr> isLoading := True \<rparr>"
    by (simp add: handleSubmit_start_def Let_def has_keys_def newErrors_def example_scenario_eq
        mountedState_eq initialState_def parseFloat_lat0 parseFloat_lon0 js_gt_def)
  have l: "latitude example_scenario = ''35.4393''" "longitude example_scenario = ''-82.2465''"
    by (simp_all add: example_scenario_eq mountedState_eq initialState_def)
  show ?thesis
    unfolding handleSubmit_success [OF newErrors_example_scenario fetch_data_example_again] st l
    by (simp add: mountedState_eq initialState_def parseFloat_lat0 parseFloat_lon0)
qed

lemma example_resubmitted_eq:
  "example_resubmitted =
     mountedState\<lparr> image1Info := Some (example_image1\<lparr> objId := 3 \<rparr>),
                    image2Info := Some (example_image2\<lparr> objId := 4 \<rparr>) \<rparr>"
  by (simp add: example_resubmitted_def handleSubmit_example_resubmitted)

text \<open>
  Claim C1 as stated fails.  The session holds the two descriptors of the example
  response; the same form is submitted again and the same response arrives, parsed
  into new objects.  URLs and bounds are the same as before, and the session now holds
  the new objects (3 and 4), not the ones it held (1 and 2).
\<close>

theorem resubmit_new_reference_counterexample:
  "handleSubmit (Inr example_response) mountedState = Inr example_scenario
   \<and> handleSubmit (Inr example_response_again) example_scenario = Inr example_resubmitted
   \<and> map_option imageUrl (image1Info example_resubmitted) = map_option imageUrl (image1Info example_scenario)
   \<and> map_option bounds (image1Info example_resubmitted) = map_option bounds (image1Info example_scenario)
   \<and> map_option objId (image1Info example_scenario) = Some 1
   \<and> map_option objId (image1Info example_resubmitted) = Some 3
   \<and> image1Info example_resubmitted \<noteq> image1Info example_scenario
   \<and> map_option objId (image2Info example_scenario) = Some 2
   \<and> map_option objId (image2Info example_resubmitted) = Some 4"
proof -
  have a: "handleSubmit (Inr example_response) mountedState = Inr example_scenario"
    by (simp only: handleSubmit_example_scenario example_scenario_eq)
  have b: "handleSubmit (Inr example_response_again) example_scenario = Inr example_resubmitted"
    by (simp only: handleSubmit_example_resubmitted example_resubmitted_eq)
  have c: "map_option imageUrl (image1Info example_resubmitted) = map_option imageUrl (image1Info example_scenario)
   \<and> map_option bounds (image1Info example_resubmitted) = map_option bounds (image1Info example_scenario)
   \<and> map_option objId (image1Info example_scenario) = Some 1
   \<and> map_option objId (image1Info example_resubmitted) = Some 3
   \<and> image1Info example_resubmitted \<noteq> image1Info example_scenario
   \<and> map_option objId (image2Info example_scenario) = Some 2
   \<and> map_option objId (image2Info example_resubmitted) = Some 4"
    by (simp add: example_resubmitted_eq example_scenario_eq example_image1_def
        example_image2_def)
  from a b c show ?thesis by simp
qed

text \<open>
  Claim C1, as the program has it.  The updater of \<open>image1Info\<close> and \<open>image2Info\<close>
  returns the object held when the response settles if one is held and it has the image
  URL and the bounds of the incoming one, and the incoming object otherwise.  A submit
  that passes validation empties both cells before the request, so when nothing else
  happens in between the session ends up holding the objects of the response.
\<close>

theorem image_reconciliation:
  "(imageUrl p = imageUrl n \<and> bounds p = bounds n \<longrightarrow> keepImage (Some p) (Some n) = Inr (Some p))
   \<and> (\<not> (imageUrl p = imageUrl n \<and> bounds p = bounds n) \<longrightarrow>
        keepImage (Some p) (Some n) = Inr (Some n))
   \<and> keepImage None (Some n) = Inr (Some n)
   \<and> (fetch_data out = Inr (Some data) \<and> image1 data = Some n1 \<and> image2 data = Some n2 \<longrightarrow>
        (\<exists>t. handleSubmit_settle a b out s = Inr t
           \<and> Inr (image1Info t) = keepImage (image1Info s) (Some n1)
           \<and> Inr (image2Info t) = keepImage (image2Info s) (Some n2)))
   \<and> (\<not> has_keys (newErrors s) \<longrightarrow>
        image1Info (handleSubmit_start s) = None \<and> image2Info (handleSubmit_start s) = None)
   \<and> (\<not> has_keys (newErrors s) \<and> fetch_data out = Inr (Some data) \<longrightarrow>
        (\<exists>t. handleSubmit out s = Inr t
           \<and> image1Info t = image1 data \<and> image2Info t = image2 data))"
proof -
  have keep: "keepImage (Some p) (Some n) = Inr (Some p)"
    if "imageUrl p = imageUrl n \<and> bounds p = bounds n"
    using that by (simp add: keepImage_Some)
  have replace: "keepImage (Some p) (Some n) = Inr (Some n)"
    if "\<not> (imageUrl p = imageUrl n \<and> bounds p = bounds n)"
    using that by (auto simp add: keepImage_Some)
  have none: "keepImage None (Some n) = Inr (Some n)"
    by (rule keepImage_None)
  have settle: "\<exists>t. handleSubmit_settle a b out s = Inr t
           \<and> Inr (image1Info t) = keepImage (image1Info s) (Some n1)
           \<and> Inr (image2Info t) = keepImage (image2Info s) (Some n2)"
    if h: "fetch_data out = Inr (Some data) \<and> image1 data = Some n1 \<and> image2 data = Some n2"
  proof -
    obtain i1 where k1: "keepImage (image1Info s) (Some n1) = Inr i1"
      by (cases "image1Info s") (simp_all add: keepImage_None keepImage_Some)
    obtain i2 where k2: "keepImage (image2Info s) (Some n2) = Inr i2"
      by (cases "image2Info s") (simp_all add: keepImage_None keepImage_Some)
    from h have f: "fetch_data out = Inr (Some data)" by simp
    from h k1 have d1: "keepImage (image1Info s) (image1 data) = Inr i1" by simp
    from h k2 have d2: "keepImage (image2Info s) (image2 data) = Inr i2" by simp
    have "handleSubmit_settle a b out s =
       Inr (s\<lparr> image1Info := i1, image2Info := i2, mapCenter := Some (a, b),
               markerPosition := Some (a, b), isLoading := False \<rparr>)"
      by (rule handleSubmit_settle_success [OF f d1 d2])
    with k1 k2 show ?thesis by simp
  qed
  have start: "image1Info (handleSubmit_start s) = None \<and> image2Info (handleSubmit_start s) = None"
    if "\<not> has_keys (newErrors s)"
    using that by (simp add: handleSubmit_start_valid)
  have whole: "\<exists>t. handleSubmit out s = Inr t
           \<and> image1Info t = image1 data \<and> image2Info t = image2 data"
    if "\<not> has_keys (newErrors s) \<and> fetch_data out = Inr (Some data)"
  proof -
    from that have v: "\<not> has_keys (newErrors s)" and f: "fetch_data out = Inr (Some data)"
      by simp_all
    show ?thesis by (simp add: handleSubmit_success [OF v f])
  qed
  from keep replace none settle start whole show ?thesis by blast
qed

theorem image_reconciliation_witness:
  "imageUrl example_image1 = imageUrl (example_image1\<lparr> objId := 3 \<rparr>)
   \<and> bounds example_image1 = bounds (example_image1\<lparr> objId := 3 \<rparr>)
   \<and> keepImage (Some example_image1) (Some (example_image1\<lparr> objId := 3 \<rparr>))
       = Inr (Some example_image1)
   \<and> \<not> (imageUrl example_image1 = imageUrl example_image2 \<and> bounds example_image1 = bounds example_image2)
   \<and> keepImage (Some example_image1) (Some example_image2) = Inr (Some example_image2)
   \<and> (\<exists>t. handleSubmit_settle (parseFloat ''35.4393'') (parseFloat ''-82.2465'')
              (Inr example_response_again) example_scenario = Inr t
         \<and> image1Info t = Some example_image1)
   \<and> \<not> has_keys (newErrors example_scenario)
   \<and> image1Info (handleSubmit_start example_scenario) = None
   \<and> (\<exists>t. handleSubmit (Inr example_response_again) example_scenario = Inr t
         \<and> image1Info t = Some (example_image1\<lparr> objId := 3 \<rparr>))"
proof -
  have d: "imageUrl example_image1 \<noteq> imageUrl example_image2"
    by (simp add: example_image1_def example_image2_def)
  have i: "image1Info example_scenario = Some example_image1"
    by (simp add: example_scenario_eq)
  have e: "imageUrl example_image1 = imageUrl (example_image1\<lparr> objId := 3 \<rparr>)"
    "bounds example_image1 = bounds (example_image1\<lparr> objId := 3 \<rparr>)"
    by simp_all
  note k = image_reconciliation [of example_image1 "example_image1\<lparr> objId := 3 \<rparr>"
      "Inr example_response_again"
      "\<lparr> image1 = Some (example_image1\<lparr> objId := 3 \<rparr>),
         image2 = Some (example_image2\<lparr> objId := 4 \<rparr>) \<rparr>"
      "example_image1\<lparr> objId := 3 \<rparr>" "example_image2\<lparr> objId := 4 \<rparr>"
      "parseFloat ''35.4393''" "parseFloat ''-82.2465''" example_scenario]
  note r = image_reconciliation [of example_image1 example_image2]
  from k e have keep: "keepImage (Some example_image1) (Some (example_image1\<lparr> objId := 3 \<rparr>))
       = Inr (Some example_image1)" by blast
  from r d have repl: "keepImage (Some example_image1) (Some example_image2) = Inr (Some example_image2)"
    by blast
  from k fetch_data_example_again
  have "\<exists>t. handleSubmit_settle (parseFloat ''35.4393'') (parseFloat ''-82.2465'')
              (Inr example_response_again) example_scenario = Inr t
         \<and> Inr (image1Info t) = keepImage (image1Info example_scenario)
              (Some (example_image1\<lparr> objId := 3 \<rparr>))"
    by simp blast
  then have settle: "\<exists>t. handleSubmit_settle (parseFloat ''35.4393'') (parseFloat ''-82.2465'')
              (Inr example_response_again) example_scenario = Inr t
         \<and> image1Info t = Some example_image1"
    by (simp add: i keep)
  from k newErrors_example_scenario
  have start: "image1Info (handleSubmit_start example_scenario) = None" by blast
  from k newErrors_example_scenario fetch_data_example_again
  have whole: "\<exists>t. handleSubmit (Inr example_response_again) example_scenario = Inr t
         \<and> image1Info t = Some (example_image1\<lparr> objId := 3 \<rparr>)"
    by simp blast
  from e keep d repl settle newErrors_example_scenario start whole show ?thesis by blast
qed

section \<open>The viewport after a result\<close>

lemma example_late_failure_eq:
  "example_late_failure
     = example_scenario\<lparr> apiError := ''Failed to fetch'', mapCenter := None,
                          markerPosition := None \<rparr>"
proof -
  have "fetch_data (Inl ''Failed to fetch'') = Inl ''Failed to fetch''"
    by (simp add: fetch_data_def)
  from handleSubmit_settle_failure [OF this] show ?thesis
    by (simp add: example_late_failure_def example_scenario_eq mountedState_eq initialState_def)
qed

text \<open>
  Claim C2 as stated fails.  In the scenario of the default form values the result
  carries bounds for both images, and the map is told to fly to the request coordinate
  (the doubles nearest to 35.4393 and -82.2465, where the marker is placed); no
  \<open>FitBounds\<close> is issued.
\<close>

theorem scenario_viewport_counterexample:
  "handleSubmit (Inr example_response) mountedState = Inr example_scenario
   \<and> results_rendered example_scenario
   \<and> mapUpdaterBounds example_scenario = Some [ [35.39, -82.30], [35.49, -82.19] ]
   \<and> parseFloat ''35.4393'' = Num (19482961215121 / 549755813888)
   \<and> parseFloat ''-82.2465'' = Num (- (2893791459004121 / 35184372088832))
   \<and> markerPosition example_scenario = Some (parseFloat ''35.4393'', parseFloat ''-82.2465'')
   \<and> viewport_calls example_scenario
       = [InvalidateSize, FlyTo (parseFloat ''35.4393'', parseFloat ''-82.2465'') 13]
   \<and> FitBounds [ [35.39, -82.30], [35.49, -82.19] ] \<notin> set (viewport_calls example_scenario)"
proof -
  have a: "handleSubmit (Inr example_response) mountedState = Inr example_scenario"
    by (simp only: handleSubmit_example_scenario example_scenario_eq)
  have b: "results_rendered example_scenario
   \<and> mapUpdaterBounds example_scenario = Some [ [35.39, -82.30], [35.49, -82.19] ]
   \<and> markerPosition example_scenario = Some (parseFloat ''35.4393'', parseFloat ''-82.2465'')
   \<and> viewport_calls example_scenario
       = [InvalidateSize, FlyTo (parseFloat ''35.4393'', parseFloat ''-82.2465'') 13]
   \<and> FitBounds [ [35.39, -82.30], [35.49, -82.19] ] \<notin> set (viewport_calls example_scenario)"
    by (simp add: example_scenario_eq mountedState_eq initialState_def results_rendered_def
        mapUpdaterBounds_def bounds_of_def example_image1_def viewport_calls_def MapUpdater_def
        mapUpdaterCenter_def parseFloat_lat0 parseFloat_lon0)
  from a b parseFloat_lat0 parseFloat_lon0 show ?thesis by simp
qed

text \<open>
  Claim C2, as the program has it.  After a successful result the map center is the
  request coordinate and \<^verbatim>\<open>MapUpdater\<close> flies there at zoom 13; the marker is placed at
  the same coordinate.  A set center always wins; bounds are fitted only when no center
  is set, with the bounds of image 1 when it has any and those of image 2 otherwise.
\<close>

theorem viewport_after_result:
  "(\<not> has_keys (newErrors s) \<and> fetch_data out = Inr (Some data) \<longrightarrow>
      (\<exists>t. handleSubmit out s = Inr t
         \<and> viewport_calls t
             = [InvalidateSize, FlyTo (parseFloat (latitude s), parseFloat (longitude s)) 13]
         \<and> markerPosition t = Some (parseFloat (latitude s), parseFloat (longitude s))))
   \<and> (mapCenter s = Some c \<longrightarrow> viewport_calls s = [InvalidateSize, FlyTo c 13])
   \<and> (mapCenter s = None \<and> bounds_of (image1Info s) = Some b \<longrightarrow>
        viewport_calls s = [InvalidateSize, FitBounds b])
   \<and> (mapCenter s = None \<and> bounds_of (image1Info s) = None \<and> bounds_of (image2Info s) = Some b \<longrightarrow>
        viewport_calls s = [InvalidateSize, FitBounds b])
   \<and> (bounds_of (image1Info s) = Some b \<longrightarrow> mapUpdaterBounds s = Some b)"
proof -
  have centre: "viewport_calls t = [InvalidateSize, FlyTo c 13]" if "mapCenter t = Some c" for t c
    using that by (simp add: viewport_calls_def MapUpdater_def mapUpdaterCenter_def)
  have after: "\<exists>t. handleSubmit out s = Inr t
         \<and> viewport_calls t
             = [InvalidateSize, FlyTo (parseFloat (latitude s), parseFloat (longitude s)) 13]
         \<and> markerPosition t = Some (parseFloat (latitude s), parseFloat (longitude s))"
    if "\<not> has_keys (newErrors s) \<and> fetch_data out = Inr (Some data)"
  proof -
    from that have v: "\<not> has_keys (newErrors s)" and f: "fetch_data out = Inr (Some data)"
      by simp_all
    show ?thesis by (simp add: handleSubmit_success [OF v f] centre)
  qed
  have fit1: "viewport_calls s = [InvalidateSize, FitBounds b]"
    if "mapCenter s = None \<and> bounds_of (image1Info s) = Some b"
    using that by (simp add: viewport_calls_def MapUpdater_def mapUpdaterCenter_def mapUpdaterBounds_def)
  have fit2: "viewport_calls s = [InvalidateSize, FitBounds b]"
    if "mapCenter s = None \<and> bounds_of (image1Info s) = None \<and> bounds_of (image2Info s) = Some b"
    using that by (simp add: viewport_calls_def MapUpdater_def mapUpdaterCenter_def mapUpdaterBounds_def)
  have prio: "mapUpdaterBounds s = Some b" if "bounds_of (image1Info s) = Some b"
    using that by (simp add: mapUpdaterBounds_def)
  from after centre [of s c] fit1 fit2 prio show ?thesis by blast
qed

theorem viewport_after_result_witness:
  "\<not> has_keys (newErrors mountedState)
   \<and> (\<exists>t. handleSubmit (Inr example_response) mountedState = Inr t
         \<and> viewport_calls t
             = [InvalidateSize, FlyTo (parseFloat ''35.4393'', parseFloat ''-82.2465'') 13])
   \<and> mapCenter example_late_failure = None
   \<and> bounds_of (image1Info example_late_failure)
       = Some [ [35.39, -82.30], [35.49, -82.19] ]
   \<and> viewport_calls example_late_failure
       = [InvalidateSize, FitBounds [ [35.39, -82.30], [35.49, -82.19] ] ]
   \<and> bounds_of (image1Info (example_late_failure\<lparr> image1Info := None \<rparr>)) = None
   \<and> viewport_calls (example_late_failure\<lparr> image1Info := None \<rparr>)
       = [InvalidateSize, FitBounds [ [35.38, -82.31], [35.50, -82.18] ] ]
   \<and> mapUpdaterBounds example_scenario = Some [ [35.39, -82.30], [35.49, -82.19] ]
   \<and> mapCenter example_scenario = Some (parseFloat ''35.4393'', parseFloat ''-82.2465'')
   \<and> viewport_calls example_scenario
       = [InvalidateSize, FlyTo (parseFloat ''35.4393'', parseFloat ''-82.2465'') 13]"
proof -
  have c: "mapCenter example_scenario = Some (parseFloat ''35.4393'', parseFloat ''-82.2465'')"
    by (simp add: example_scenario_eq mountedState_eq parseFloat_lat0 parseFloat_lon0)
  have l: "latitude mountedState = ''35.4393''" "longitude mountedState = ''-82.2465''"
    by (simp_all add: mountedState_eq initialState_def)
  note lf = example_late_failure_eq
  have m: "mapCenter example_late_failure = None"
    "mapCenter (example_late_failure\<lparr> image1Info := None \<rparr>) = None"
    by (simp_all add: lf)
  have b1: "bounds_of (image1Info example_late_failure)
       = Some [ [35.39, -82.30], [35.49, -82.19] ]"
    "bounds_of (image1Info example_scenario) = Some [ [35.39, -82.30], [35.49, -82.19] ]"
    by (simp_all add: lf example_scenario_eq bounds_of_def example_image1_def)
  have b2: "bounds_of (image1Info (example_late_failure\<lparr> image1Info := None \<rparr>)) = None"
    "bounds_of (image2Info (example_late_failure\<lparr> image1Info := None \<rparr>))
       = Some [ [35.38, -82.31], [35.50, -82.18] ]"
    by (simp_all add: lf example_scenario_eq bounds_of_def example_image2_def)
  from viewport_after_result [of mountedState "Inr example_response"
        "\<lparr> image1 = Some example_image1, image2 = Some example_image2 \<rparr>"]
      newErrors_mounted fetch_data_example
  have w1: "\<exists>t. handleSubmit (Inr example_response) mountedState = Inr t
         \<and> viewport_calls t
             = [InvalidateSize, FlyTo (parseFloat ''35.4393'', parseFloat ''-82.2465'') 13]"
    unfolding l by blast
  from viewport_after_result [of example_late_failure _ _ _ "[ [35.39, -82.30], [35.49, -82.19] ]"]
      m b1
  have w2: "viewport_calls example_late_failure
       = [InvalidateSize, FitBounds [ [35.39, -82.30], [35.49, -82.19] ] ]"
    by blast
  from viewport_after_result [of "example_late_failure\<lparr> image1Info := None \<rparr>" _ _ _
        "[ [35.38, -82.31], [35.50, -82.18] ]"] m b2
  have w3: "viewport_calls (example_late_failure\<lparr> image1Info := None \<rparr>)
       = [InvalidateSize, FitBounds [ [35.38, -82.31], [35.50, -82.18] ] ]"
    by blast
  from viewport_after_result [of example_scenario _ _
        "(parseFloat ''35.4393'', parseFloat ''-82.2465'')" "[ [35.39, -82.30], [35.49, -82.19] ]"]
      c b1
  have w4: "mapUpdaterBounds example_scenario = Some [ [35.39, -82.30], [35.49, -82.19] ]"
    "viewport_calls example_scenario
       = [InvalidateSize, FlyTo (parseFloat ''35.4393'', parseFloat ''-82.2465'') 13]"
    by blast+
  from newErrors_mounted w1 m(1) b1(1) w2 b2(1) w3 w4 c show ?thesis by blast
qed

section \<open>Category checkboxes\<close>

lemma categoryChecked_subset:
  "categoryChecked items s \<longleftrightarrow> set items \<subseteq> set (selectedComputations s)"
  by (auto simp: categoryChecked_def list_all_iff)

lemma select_each:
  "selectedComputations (fold (\<lambda>item. handleComputationChange item True) items s)
     = selectedComputations s @ items"
  by (induction items arbitrary: s) (simp_all add: handleComputationChange_def)

lemma set_spread_set: "set (spread_set xs) = set xs"
  by (simp add: spread_set_def)

lemma distinct_spread_set: "distinct (spread_set xs)"
  by (simp add: spread_set_def)

lemma category_lookup:
  "(category, items) \<in> set computationCategories \<Longrightarrow>
     map_of computationCategories category = Some items"
proof (rule map_of_is_SomeI)
  show "distinct (map fst computationCategories)"
    by (simp add: computationCategories_def)
qed

text \<open>
  Claim C9.  The checked state of a category checkbox is computed from the selection
  alone and is true exactly when every item of the category is selected.  Ticking every
  item of a category, one by one or through the category checkbox, makes it checked;
  unticking any one item of the category makes it unchecked.
\<close>

theorem category_checkbox_derived:
  "(categoryChecked items s \<longleftrightarrow> set items \<subseteq> set (selectedComputations s))
   \<and> (selectedComputations t = selectedComputations s \<longrightarrow>
        categoryChecked items t = categoryChecked items s)
   \<and> categoryChecked items (fold (\<lambda>item. handleComputationChange item True) items s)
   \<and> ((category, items) \<in> set computationCategories \<longrightarrow>
        map_option (categoryChecked items) (handleCategoryCheckboxChange category True s) = Some True)
   \<and> (item \<in> set items \<longrightarrow> \<not> categoryChecked items (handleComputationChange item False s))"
proof -
  have derived: "categoryChecked items t = categoryChecked items s"
    if "selectedComputations t = selectedComputations s"
    using that by (simp add: categoryChecked_def)
  have all: "categoryChecked items (fold (\<lambda>item. handleComputationChange item True) items s)"
    by (simp add: categoryChecked_subset select_each)
  have box: "map_option (categoryChecked items) (handleCategoryCheckboxChange category True s) = Some True"
    if "(category, items) \<in> set computationCategories"
    using category_lookup [OF that]
    by (simp add: handleCategoryCheckboxChange_def categoryChecked_subset set_spread_set)
  have removed: "\<not> categoryChecked items (handleComputationChange item False s)"
    if "item \<in> set items"
    using that by (auto simp: categoryChecked_subset handleComputationChange_def)
  from categoryChecked_subset [of items s] derived all box removed show ?thesis by blast
qed

theorem category_checkbox_derived_witness:
  "(''Water Resources'', example_water_items) \<in> set computationCategories
   \<and> map_option (categoryChecked example_water_items)
         (handleCategoryCheckboxChange ''Water Resources'' True example_scenario) = Some True
   \<and> categoryChecked example_water_items
         (fold (\<lambda>item. handleComputationChange item True) example_water_items example_scenario)
   \<and> ''Modified Normalized Difference Water Index (MNDWI)'' \<in> set example_water_items
   \<and> \<not> categoryChecked example_water_items
         (handleComputationChange ''Modified Normalized Difference Water Index (MNDWI)'' False
            (fold (\<lambda>item. handleComputationChange item True) example_water_items example_scenario))
   \<and> selectedComputations (handleCalculate example_scenario) = selectedComputations example_scenario
   \<and> categoryChecked example_water_items (handleCalculate example_scenario)
       = categoryChecked example_water_items example_scenario"
proof -
  have c: "(''Water Resources'', example_water_items) \<in> set computationCategories"
    by (simp add: computationCategories_def example_water_items_def)
  have i: "''Modified Normalized Difference Water Index (MNDWI)'' \<in> set example_water_items"
    by (simp add: example_water_items_def)
  have k: "selectedComputations (handleCalculate example_scenario) = selectedComputations example_scenario"
    by (simp add: handleCalculate_def)
  show ?thesis
    using category_checkbox_derived [of example_water_items example_scenario
        "handleCalculate example_scenario" "''Water Resources''"]
      category_checkbox_derived [of example_water_items
        "fold (\<lambda>item. handleComputationChange item True) example_water_items example_scenario"
        _ _ "''Modified Normalized Difference Water Index (MNDWI)''"]
      c i k
    by blast
qed

section \<open>Printing and reading decimal numbers\<close>

lemma digit_cases: "k < 10 \<Longrightarrow> k \<in> {0, 1, 2, 3, 4, 5, 6, 7, 8, 9::nat}"
  by auto

lemma is_digit_digit_char: "is_digit (digit_char n)"
proof -
  have "n mod 10 < 10" by simp
  then have "n mod 10 \<in> {0, 1, 2, 3, 4, 5, 6, 7, 8, 9::nat}" by (rule digit_cases)
  then show ?thesis
    unfolding digit_char_def is_digit_def by (elim insertE emptyE) simp_all
qed

lemma digit_val_digit_char: "digit_val (digit_char n) = n mod 10"
proof -
  have "n mod 10 < 10" by simp
  then have "n mod 10 \<in> {0, 1, 2, 3, 4, 5, 6, 7, 8, 9::nat}" by (rule digit_cases)
  then show ?thesis
    unfolding digit_char_def digit_val_def by (elim insertE emptyE) simp_all
qed

lemma digits_val_snoc: "digits_val (ds @ [c]) = digits_val ds * 10 + digit_val c"
  by (simp add: digits_val_def)

lemma show_nat_digits: "list_all is_digit (show_nat n)"
  by (induction n rule: show_nat.induct) (subst show_nat.simps, simp add: is_digit_digit_char)

lemma show_nat_nonempty: "show_nat n \<noteq> []"
  by (subst show_nat.simps) simp

lemma digits_val_show_nat: "digits_val (show_nat n) = n"
proof (induction n rule: show_nat.induct)
  case (1 n)
  show ?case
  proof (cases "n < 10")
    case True
    then show ?thesis
      by (subst show_nat.simps) (simp add: digits_val_def digit_val_digit_char)
  next
    case False
    with 1 have "digits_val (show_nat (n div 10)) = n div 10" by simp
    with False show ?thesis
      by (subst show_nat.simps) (simp add: digits_val_snoc digit_val_digit_char)
  qed
qed

lemma fixed_digits_digits: "list_all is_digit (fixed_digits k n)"
  by (induction k n rule: fixed_digits.induct) (simp_all add: is_digit_digit_char)

lemma length_fixed_digits: "length (fixed_digits k n) = k"
  by (induction k n rule: fixed_digits.induct) simp_all

lemma digits_val_fixed_digits:
  "digits_val (ds @ fixed_digits k n) = digits_val ds * 10 ^ k + n mod 10 ^ k"
proof (induction k n arbitrary: ds rule: fixed_digits.induct)
  case (1 n)
  then show ?case by simp
next
  case (2 k n)
  have "digits_val (ds @ fixed_digits (Suc k) n)
      = digits_val ((ds @ fixed_digits k (n div 10)) @ [digit_char (n mod 10)])"
    by simp
  also have "\<dots> = (digits_val ds * 10 ^ k + (n div 10) mod 10 ^ k) * 10 + n mod 10"
    by (simp only: digits_val_snoc "2.IH" digit_val_digit_char) simp
  also have "\<dots> = digits_val ds * 10 ^ Suc k + ((n div 10) mod 10 ^ k * 10 + n mod 10)"
    by (simp add: algebra_simps)
  also have "(n div 10) mod 10 ^ k * 10 + n mod 10 = n mod 10 ^ Suc k"
    by (simp add: mod_mult2_eq mult.commute)
  finally show ?case .
qed


lemma takeWhile_digits_stop:
  "list_all is_digit ds \<Longrightarrow> \<not> is_digit c \<Longrightarrow> takeWhile is_digit (ds @ c # rest) = ds"
  by (induction ds) simp_all

lemma dropWhile_digits_stop:
  "list_all is_digit ds \<Longrightarrow> \<not> is_digit c \<Longrightarrow> dropWhile is_digit (ds @ c # rest) = c # rest"
  by (induction ds) simp_all

lemma takeWhile_all_digits: "list_all is_digit ds \<Longrightarrow> takeWhile is_digit ds = ds"
  by (induction ds) simp_all

lemma dropWhile_all_digits: "list_all is_digit ds \<Longrightarrow> dropWhile is_digit ds = []"
  by (induction ds) simp_all

lemma skip_white_plain:
  assumes "\<not> is_space1 c" and "c \<notin> {CHR 0xC2, CHR 0xE1, CHR 0xE2, CHR 0xE3, CHR 0xEF}"
  shows "skip_white (c # s) = c # s"
proof (cases s)
  case Nil
  with assms show ?thesis by simp
next
  case (Cons b t)
  show ?thesis
  proof (cases t)
    case Nil
    with assms Cons show ?thesis by (simp add: is_space2_def)
  next
    case (Cons d u)
    with assms \<open>s = b # t\<close> show ?thesis by (simp add: is_space2_def is_space3_def)
  qed
qed

lemma digit_not_special:
  assumes "is_digit c"
  shows "skip_white (c # s) = c # s" and "c \<noteq> CHR ''-''" and "c \<noteq> CHR ''+''" and "c \<noteq> CHR ''I''"
proof -
  from assms have "\<not> is_space1 c" and "c \<notin> {CHR 0xC2, CHR 0xE1, CHR 0xE2, CHR 0xE3, CHR 0xEF}"
    by (auto simp: is_digit_def is_space1_def)
  then show "skip_white (c # s) = c # s" by (rule skip_white_plain)
  from assms show "c \<noteq> CHR ''-''" and "c \<noteq> CHR ''+''" and "c \<noteq> CHR ''I''"
    by (auto simp: is_digit_def)
qed

lemma skip_white_minus: "skip_white (CHR ''-'' # s) = CHR ''-'' # s"
  by (rule skip_white_plain) (simp_all add: is_space1_def)

lemma parseFloat_unsigned:
  assumes "ip \<noteq> []" and "list_all is_digit ip" and "list_all is_digit fp"
  shows "parseFloat (ip @ ''.'' @ fp) = number_value (real (digits_val (ip @ fp)) / 10 ^ length fp)"
proof -
  from assms(1) obtain c cs where ip: "ip = c # cs" by (cases ip) auto
  with assms(2) have c: "is_digit c" by simp
  note sp = digit_not_special [OF c]
  have dot: "\<not> is_digit CHR ''.''" by (simp add: is_digit_def)
  have sign: "parse_sign (skip_white (ip @ ''.'' @ fp)) = (False, ip @ ''.'' @ fp)"
    using sp(2,3) by (simp add: ip sp(1) parse_sign_def)
  have inf: "\<not> startsWith (ip @ ''.'' @ fp) ''Infinity''"
    using sp(4) by (simp add: ip)
  have tw: "takeWhile is_digit (ip @ CHR ''.'' # fp) = ip"
    by (rule takeWhile_digits_stop [OF assms(2) dot])
  have dw: "dropWhile is_digit (ip @ CHR ''.'' # fp) = CHR ''.'' # fp"
    by (rule dropWhile_digits_stop [OF assms(2) dot])
  show ?thesis
    unfolding parseFloat_def sign
    using inf assms(1)
    by (simp add: tw dw takeWhile_all_digits [OF assms(3)] dropWhile_all_digits [OF assms(3)]
        parse_exponent_def scale10_def Let_def)
qed

lemma parseFloat_negative:
  assumes "ip \<noteq> []" and "list_all is_digit ip" and "list_all is_digit fp"
  shows "parseFloat (''-'' @ ip @ ''.'' @ fp)
     = number_value (- (real (digits_val (ip @ fp)) / 10 ^ length fp))"
proof -
  from assms(1) obtain c cs where ip: "ip = c # cs" by (cases ip) auto
  with assms(2) have c: "is_digit c" by simp
  note sp = digit_not_special [OF c]
  have dot: "\<not> is_digit CHR ''.''" by (simp add: is_digit_def)
  have sign: "parse_sign (skip_white (''-'' @ ip @ ''.'' @ fp)) = (True, ip @ ''.'' @ fp)"
    by (simp add: parse_sign_def skip_white_minus)
  have inf: "\<not> startsWith (ip @ ''.'' @ fp) ''Infinity''"
    using sp(4) by (simp add: ip)
  have tw: "takeWhile is_digit (ip @ CHR ''.'' # fp) = ip"
    by (rule takeWhile_digits_stop [OF assms(2) dot])
  have dw: "dropWhile is_digit (ip @ CHR ''.'' # fp) = CHR ''.'' # fp"
    by (rule dropWhile_digits_stop [OF assms(2) dot])
  show ?thesis
    unfolding parseFloat_def sign
    using inf assms(1)
    by (simp add: tw dw takeWhile_all_digits [OF assms(3)] dropWhile_all_digits [OF assms(3)]
        parse_exponent_def scale10_def Let_def)
qed

lemma toFixed_scaled_split:
  "digits_val (show_nat (n div 10 ^ d) @ fixed_digits d (n mod 10 ^ d)) = n"
  by (simp add: digits_val_fixed_digits digits_val_show_nat div_mult_mod_eq)

lemma parseFloat_toFixed:
  assumes "0 < d"
  shows "parseFloat (toFixed d x)
     = number_value ((if x < 0 then -1 else 1) * real (toFixed_scaled d x) / 10 ^ d)"
proof -
  let ?n = "toFixed_scaled d x"
  let ?ip = "show_nat (?n div 10 ^ d)"
  let ?fp = "fixed_digits d (?n mod 10 ^ d)"
  have ip: "?ip \<noteq> []" "list_all is_digit ?ip"
    by (simp_all add: show_nat_nonempty show_nat_digits)
  have fp: "list_all is_digit ?fp" "length ?fp = d"
    by (simp_all add: fixed_digits_digits length_fixed_digits)
  show ?thesis
  proof (cases "x < 0")
    case True
    then have "toFixed d x = ''-'' @ ?ip @ ''.'' @ ?fp"
      using assms by (simp add: toFixed_def Let_def)
    then show ?thesis
      using True parseFloat_negative [OF ip fp(1)]
      by (simp add: toFixed_scaled_split fp(2))
  next
    case False
    then have "toFixed d x = ?ip @ ''.'' @ ?fp"
      using assms by (simp add: toFixed_def Let_def)
    then show ?thesis
      using False parseFloat_unsigned [OF ip fp(1)]
      by (simp add: toFixed_scaled_split fp(2))
  qed
qed

lemma toFixed_scaled_bound:
  assumes "\<bar>x\<bar> \<le> 1"
  shows "real (toFixed_scaled d x) \<le> 10 ^ d"
proof -
  have "\<bar>x\<bar> * 10 ^ d \<le> 1 * 10 ^ d"
    using assms by (intro mult_right_mono) simp_all
  then have "\<bar>x\<bar> * 10 ^ d \<le> 10 ^ d" by simp
  moreover have "real (10 ^ d + 1) = 10 ^ d + 1" by simp
  ultimately have "\<bar>x\<bar> * 10 ^ d + 1 / 2 < real (10 ^ d + 1)" by linarith
  then have "\<lfloor>\<bar>x\<bar> * 10 ^ d + 1 / 2\<rfloor> < int (10 ^ d + 1)"
    by (simp add: floor_less_iff)
  then have "toFixed_scaled d x < 10 ^ d + 1"
    unfolding toFixed_scaled_def by linarith
  then have "toFixed_scaled d x \<le> 10 ^ d" by simp
  then have "real (toFixed_scaled d x) \<le> real (10 ^ d)" by (rule iffD2 [OF of_nat_le_iff])
  then show ?thesis by simp
qed

section \<open>The simulated computation\<close>

lemma nearest_double_value:
  assumes "-1022 \<le> e" and "e \<le> 1023" and "2 powi e \<le> \<bar>x\<bar>" and "\<bar>x\<bar> < 2 powi (e + 1)"
    and "round_half_even (x / 2 powi (e - 52)) = n"
  shows "nearest_double x = of_int n * 2 powi (e - 52)"
  by (simp only: nearest_double_eval [OF assms(1-4)] assms(5))

lemma round_half_even_tie:
  assumes "y = of_int f + 1 / 2"
  shows "round_half_even y = (if even f then f else f + 1)"
proof -
  have "\<lfloor>y\<rfloor> = f" unfolding assms by (intro floor_unique) simp_all
  then show ?thesis by (simp add: round_half_even_def Let_def assms)
qed

lemma lit_1: "lit 1 = 1"
proof -
  have "nearest_double 1 = of_int 4503599627370496 * 2 powi (0 - 52)"
  proof (rule nearest_double_value)
    show "round_half_even (1 / 2 powi (0 - 52)) = 4503599627370496"
      by (rule round_half_even_near) simp
  qed simp_all
  then show ?thesis by (simp add: lit_def)
qed

lemma lit_2: "lit 2 = 2"
proof -
  have "nearest_double 2 = of_int 4503599627370496 * 2 powi (1 - 52)"
  proof (rule nearest_double_value)
    show "round_half_even (2 / 2 powi (1 - 52)) = 4503599627370496"
      by (rule round_half_even_near) simp
  qed simp_all
  then show ?thesis by (simp add: lit_def)
qed

lemma ndvi_value_bound:
  assumes "0 \<le> r" and "r < 1"
  shows "\<bar>dbl_sub (dbl_mul r (lit 2)) (lit 1)\<bar> \<le> 1"
proof -
  let ?y = "nearest_double (r * 2)"
  from assms have "\<bar>r * 2\<bar> < 2 powi (0 + 1)" by simp
  then have "double_exponent \<bar>r * 2\<bar> \<le> 0" by (rule double_exponent_less) simp
  then have q: "double_exponent \<bar>r * 2\<bar> - 52 \<le> 1" by simp
  from nearest_double_le [of "r * 2" 1 1] assms(2) q have u: "?y \<le> 2" by simp
  from nearest_double_ge [of 0 1 "r * 2"] assms(1) q have l: "0 \<le> ?y" by simp
  from l u have "-1 \<le> ?y - 1" "?y - 1 \<le> 1" by simp_all
  from nearest_double_unit [OF this] show ?thesis
    by (simp add: dbl_sub_def dbl_mul_def lit_1 lit_2 abs_le_iff)
qed

lemma lit_08: "lit 0.8 = 3602879701896397 / 4503599627370496"
proof -
  have "nearest_double 0.8 = of_int 7205759403792794 * 2 powi (-1 - 52)"
  proof (rule nearest_double_value)
    show "round_half_even (0.8 / 2 powi (-1 - 52)) = 7205759403792794"
      by (rule round_half_even_near) simp
  qed simp_all
  then show ?thesis by (simp add: lit_def)
qed

lemma lit_01: "lit 0.1 = 3602879701896397 / 36028797018963968"
proof -
  have "nearest_double 0.1 = of_int 7205759403792794 * 2 powi (-4 - 52)"
  proof (rule nearest_double_value)
    show "round_half_even (0.1 / 2 powi (-4 - 52)) = 7205759403792794"
      by (rule round_half_even_near) simp
  qed simp_all
  then show ?thesis by (simp add: lit_def)
qed

lemma ndvi_quarter: "dbl_sub (dbl_mul (1 / 4) (lit 2)) (lit 1) = - (1 / 2)"
proof -
  have a: "nearest_double (1 / 2) = of_int 4503599627370496 * 2 powi (-1 - 52)"
  proof (rule nearest_double_value)
    show "round_half_even (1 / 2 / 2 powi (-1 - 52)) = 4503599627370496"
      by (rule round_half_even_near) simp
  qed simp_all
  have b: "nearest_double (- (1 / 2)) = of_int (- 4503599627370496) * 2 powi (-1 - 52)"
  proof (rule nearest_double_value)
    show "round_half_even (- (1 / 2) / 2 powi (-1 - 52)) = - 4503599627370496"
      by (rule round_half_even_near) simp
  qed simp_all
  from a have a': "nearest_double (1 / 2) = 1 / 2" by simp
  from b have b': "nearest_double (- (1 / 2)) = - (1 / 2)" by simp
  show ?thesis by (simp add: dbl_sub_def dbl_mul_def lit_1 lit_2 a' b')
qed

lemma evi_quarter:
  "dbl_add (dbl_mul (1 / 4) (lit 0.8)) (lit 0.1) = 1351079888211149 / 4503599627370496"
proof -
  have a: "nearest_double (3602879701896397 / 18014398509481984)
      = of_int 7205759403792794 * 2 powi (-3 - 52)"
  proof (rule nearest_double_value)
    show "round_half_even (3602879701896397 / 18014398509481984 / 2 powi (-3 - 52)) = 7205759403792794"
      by (rule round_half_even_near) simp
  qed simp_all
  then have a': "nearest_double (3602879701896397 / 18014398509481984)
      = 3602879701896397 / 18014398509481984" by simp
  have t: "round_half_even (10808639105689191 / 36028797018963968 / 2 powi (-2 - 52))
      = (if even (5404319552844595::int) then 5404319552844595 else 5404319552844595 + 1)"
    by (rule round_half_even_tie) simp
  have b: "nearest_double (10808639105689191 / 36028797018963968)
      = of_int 5404319552844596 * 2 powi (-2 - 52)"
  proof (rule nearest_double_value)
    show "round_half_even (10808639105689191 / 36028797018963968 / 2 powi (-2 - 52)) = 5404319552844596"
      unfolding t by simp
  qed simp_all
  then have b': "nearest_double (10808639105689191 / 36028797018963968)
      = 1351079888211149 / 4503599627370496" by simp
  have "1 / 4 * (3602879701896397 / 4503599627370496) = (3602879701896397 / 18014398509481984 :: real)"
    by simp
  then have m: "dbl_mul (1 / 4) (lit 0.8) = 3602879701896397 / 18014398509481984"
    unfolding dbl_mul_def lit_08 by (simp only: a')
  have "3602879701896397 / 18014398509481984 + 3602879701896397 / 36028797018963968
      = (10808639105689191 / 36028797018963968 :: real)"
    by simp
  then show ?thesis
    unfolding m lit_01 dbl_add_def by (simp only: b')
qed

lemma toFixed_4_neg_half: "toFixed 4 (- (1 / 2)) = ''-0.5000''"
proof -
  have n: "toFixed_scaled 4 (- (1 / 2)) = 5000" by (simp add: toFixed_scaled_def)
  have a: "show_nat 0 = ''0''" by code_simp
  have b: "fixed_digits 4 5000 = ''5000''" by code_simp
  show ?thesis by (simp add: toFixed_def n a b)
qed

lemma toFixed_4_evi_quarter: "toFixed 4 (1351079888211149 / 4503599627370496) = ''0.3000''"
proof -
  have n: "toFixed_scaled 4 (1351079888211149 / 4503599627370496) = 3000"
    by (simp add: toFixed_scaled_def)
  have a: "show_nat 0 = ''0''" by code_simp
  have b: "fixed_digits 4 3000 = ''3000''" by code_simp
  show ?thesis by (simp add: toFixed_def n a b)
qed

lemma simulate_dom:
  "dom (fst (simulate rnd item (res, k))) = dom res \<union> result_keys item"
  by (simp add: simulate_def result_keys_def Let_def)

lemma fold_simulate_dom:
  "dom (fst (fold (simulate rnd) sel st)) = dom (fst st) \<union> (\<Union>item\<in>set sel. result_keys item)"
proof (induction sel arbitrary: st)
  case Nil
  then show ?case by simp
next
  case (Cons item sel)
  obtain res k where st: "st = (res, k)" by (cases st)
  show ?case
    by (simp add: Cons.IH st simulate_dom Un_assoc)
qed

lemma fold_fold_simulate_dom:
  "dom (fst (fold (\<lambda>_. fold (simulate rnd) sel) xs st))
     = dom (fst st) \<union> (if xs = [] then {} else (\<Union>item\<in>set sel. result_keys item))"
proof (induction xs arbitrary: st)
  case Nil
  then show ?case by simp
next
  case (Cons x xs)
  show ?case
    by (auto simp: Cons.IH fold_simulate_dom)
qed

lemma simulate_all_dom:
  "dom (fst (simulate_all rnd sel)) = (\<Union>item\<in>set sel. result_keys item)"
  unfolding simulate_all_def fold_fold_simulate_dom by auto


lemma calculate_click_Some:
  "calculate_click s = Some t \<longleftrightarrow>
     results_rendered s \<and> selectedComputations s \<noteq> [] \<and> \<not> isCalculating s \<and> t = handleCalculate s"
  by (auto simp: calculate_click_def calculate_disabled_def)

lemma calculate_click_ignores_results:
  "calculate_click (s\<lparr> computationResults := old \<rparr>)
     = map_option (\<lambda>t. t\<lparr> computationResults := Map.empty \<rparr>) (calculate_click s)"
  by (simp add: calculate_click_def calculate_disabled_def results_rendered_def handleCalculate_def)

lemma simulate_ndvi:
  "simulate rnd ''NDVI (Normalized Difference Vegetation Index)'' st
     = ((fst st)(''NDVI'' \<mapsto> toFixed 4 (dbl_sub (dbl_mul (rnd (snd st)) (lit 2)) (lit 1))), Suc (snd st))"
  by (simp add: simulate_def Let_def)

lemma simulate_ndvi_step:
  assumes "fst st = Map.empty \<or> (\<exists>j. fst st = [''NDVI'' \<mapsto> toFixed 4 (dbl_sub (dbl_mul (rnd j) (lit 2)) (lit 1))])"
  shows "\<exists>j. fst (simulate rnd ''NDVI (Normalized Difference Vegetation Index)'' st)
           = [''NDVI'' \<mapsto> toFixed 4 (dbl_sub (dbl_mul (rnd j) (lit 2)) (lit 1))]"
proof -
  have "(fst st)(''NDVI'' \<mapsto> toFixed 4 (dbl_sub (dbl_mul (rnd (snd st)) (lit 2)) (lit 1)))
      = [''NDVI'' \<mapsto> toFixed 4 (dbl_sub (dbl_mul (rnd (snd st)) (lit 2)) (lit 1))]"
  proof (rule disjE [OF assms])
    assume "fst st = Map.empty"
    then show ?thesis by simp
  next
    assume "\<exists>j. fst st = [''NDVI'' \<mapsto> toFixed 4 (dbl_sub (dbl_mul (rnd j) (lit 2)) (lit 1))]"
    then obtain j where "fst st = [''NDVI'' \<mapsto> toFixed 4 (dbl_sub (dbl_mul (rnd j) (lit 2)) (lit 1))]" ..
    then show ?thesis by simp
  qed
  then have "fst (simulate rnd ''NDVI (Normalized Difference Vegetation Index)'' st)
      = [''NDVI'' \<mapsto> toFixed 4 (dbl_sub (dbl_mul (rnd (snd st)) (lit 2)) (lit 1))]"
    by (simp only: simulate_ndvi fst_conv)
  then show ?thesis ..
qed

lemma fold_simulate_ndvi:
  assumes "set xs \<subseteq> {''NDVI (Normalized Difference Vegetation Index)''}"
    and "\<exists>j. fst st = [''NDVI'' \<mapsto> toFixed 4 (dbl_sub (dbl_mul (rnd j) (lit 2)) (lit 1))]"
  shows "\<exists>j. fst (fold (simulate rnd) xs st) = [''NDVI'' \<mapsto> toFixed 4 (dbl_sub (dbl_mul (rnd j) (lit 2)) (lit 1))]"
  using assms
proof (induction xs arbitrary: st)
  case Nil
  then show ?case by simp
next
  case (Cons x xs)
  from Cons.prems(1) have x: "x = ''NDVI (Normalized Difference Vegetation Index)''"
    and xs: "set xs \<subseteq> {''NDVI (Normalized Difference Vegetation Index)''}"
    by simp_all
  from Cons.prems(2) have "\<exists>j. fst (simulate rnd x st) = [''NDVI'' \<mapsto> toFixed 4 (dbl_sub (dbl_mul (rnd j) (lit 2)) (lit 1))]"
    unfolding x by (intro simulate_ndvi_step disjI2)
  from Cons.IH [OF xs this] show ?case by (simp only: fold_simps)
qed

lemma fold_simulate_ndvi_nonempty:
  assumes "set xs \<subseteq> {''NDVI (Normalized Difference Vegetation Index)''}" and "xs \<noteq> []"
    and "fst st = Map.empty \<or> (\<exists>j. fst st = [''NDVI'' \<mapsto> toFixed 4 (dbl_sub (dbl_mul (rnd j) (lit 2)) (lit 1))])"
  shows "\<exists>j. fst (fold (simulate rnd) xs st) = [''NDVI'' \<mapsto> toFixed 4 (dbl_sub (dbl_mul (rnd j) (lit 2)) (lit 1))]"
proof -
  from assms(2) obtain x xs' where xs: "xs = x # xs'" by (cases xs) auto
  with assms(1) have x: "x = ''NDVI (Normalized Difference Vegetation Index)''"
    and xs': "set xs' \<subseteq> {''NDVI (Normalized Difference Vegetation Index)''}"
    by simp_all
  from assms(3) have "\<exists>j. fst (simulate rnd x st) = [''NDVI'' \<mapsto> toFixed 4 (dbl_sub (dbl_mul (rnd j) (lit 2)) (lit 1))]"
    unfolding x by (rule simulate_ndvi_step)
  from fold_simulate_ndvi [OF xs' this] show ?thesis by (simp only: xs fold_simps)
qed

lemma fold_fold_simulate_ndvi:
  assumes "set sel \<subseteq> {''NDVI (Normalized Difference Vegetation Index)''}"
    and "\<exists>j. fst st = [''NDVI'' \<mapsto> toFixed 4 (dbl_sub (dbl_mul (rnd j) (lit 2)) (lit 1))]"
  shows "\<exists>j. fst (fold (\<lambda>_. fold (simulate rnd) sel) ys st)
           = [''NDVI'' \<mapsto> toFixed 4 (dbl_sub (dbl_mul (rnd j) (lit 2)) (lit 1))]"
  using assms(2)
proof (induction ys arbitrary: st)
  case Nil
  then show ?case by simp
next
  case (Cons y ys)
  from fold_simulate_ndvi [OF assms(1) Cons.prems]
  have "\<exists>j. fst (fold (simulate rnd) sel st) = [''NDVI'' \<mapsto> toFixed 4 (dbl_sub (dbl_mul (rnd j) (lit 2)) (lit 1))]" .
  from Cons.IH [OF this] show ?case by (simp only: fold_simps)
qed

lemma fold_const_Cons:
  "xs = y # ys \<Longrightarrow> fold (\<lambda>_. g) xs a = fold (\<lambda>_. g) ys (g a)"
  by simp

lemma singleton_set_nonempty: "set xs = {x} \<Longrightarrow> xs \<noteq> []"
  by (cases xs) simp_all

lemma simulate_all_ndvi:
  assumes "set sel = {''NDVI (Normalized Difference Vegetation Index)''}"
  shows "\<exists>j. fst (simulate_all rnd sel) = [''NDVI'' \<mapsto> toFixed 4 (dbl_sub (dbl_mul (rnd j) (lit 2)) (lit 1))]"
proof -
  have sub: "set sel \<subseteq> {''NDVI (Normalized Difference Vegetation Index)''}"
    by (simp only: assms subset_refl)
  have ne: "sel \<noteq> []"
    by (rule singleton_set_nonempty [OF assms])
  from ne obtain y ys where sel: "sel = y # ys" by (cases sel) blast+
  have start: "fst (Map.empty :: string \<rightharpoonup> string, 0 :: nat) = Map.empty
      \<or> (\<exists>j. fst (Map.empty :: string \<rightharpoonup> string, 0 :: nat)
            = [''NDVI'' \<mapsto> toFixed 4 (dbl_sub (dbl_mul (rnd j) (lit 2)) (lit 1))])"
    by (simp only: fst_conv simp_thms)
  have "\<exists>j. fst (fold (simulate rnd) sel (Map.empty, 0)) = [''NDVI'' \<mapsto> toFixed 4 (dbl_sub (dbl_mul (rnd j) (lit 2)) (lit 1))]"
    by (rule fold_simulate_ndvi_nonempty [OF sub ne start])
  from fold_fold_simulate_ndvi [OF sub this, of ys]
  have "\<exists>j. fst (fold (\<lambda>_. fold (simulate rnd) sel) ys (fold (simulate rnd) sel (Map.empty, 0)))
           = [''NDVI'' \<mapsto> toFixed 4 (dbl_sub (dbl_mul (rnd j) (lit 2)) (lit 1))]" .
  then show ?thesis
    unfolding simulate_all_def fold_const_Cons [OF sel] .
qed

lemma toFixed_4_shape:
  "\<exists>sgn ip fp. toFixed 4 x = sgn @ ip @ ''.'' @ fp \<and> (sgn = [] \<or> sgn = ''-'') \<and> ip \<noteq> []
     \<and> list_all is_digit ip \<and> list_all is_digit fp \<and> length fp = 4"
proof -
  let ?n = "toFixed_scaled 4 x"
  have "toFixed 4 x = (if x < 0 then ''-'' else []) @ show_nat (?n div 10 ^ 4) @ ''.''
      @ fixed_digits 4 (?n mod 10 ^ 4)"
    by (simp add: toFixed_def Let_def)
  moreover have "(if x < 0 then ''-'' else []) = [] \<or> (if x < 0 then ''-'' else []) = ''-''"
    by simp
  moreover note show_nat_nonempty [of "?n div 10 ^ 4"] show_nat_digits [of "?n div 10 ^ 4"]
    fixed_digits_digits [of 4 "?n mod 10 ^ 4"] length_fixed_digits [of 4 "?n mod 10 ^ 4"]
  ultimately show ?thesis by blast
qed

lemma parseFloat_toFixed_unit:
  assumes "\<bar>x\<bar> \<le> 1"
  shows "\<exists>y. parseFloat (toFixed 4 x) = Num y \<and> -1 \<le> y \<and> y \<le> 1"
proof -
  have b: "real (toFixed_scaled 4 x) \<le> 10 ^ 4"
    by (rule toFixed_scaled_bound [OF assms])
  have p: "parseFloat (toFixed 4 x)
      = number_value ((if x < 0 then -1 else 1) * real (toFixed_scaled 4 x) / 10 ^ 4)"
    by (rule parseFloat_toFixed) simp
  have "-1 \<le> (if x < 0 then -1 else 1) * real (toFixed_scaled 4 x) / 10 ^ 4"
    and "(if x < 0 then -1 else 1) * real (toFixed_scaled 4 x) / 10 ^ 4 \<le> 1"
    using b by (simp_all add: field_simps)
  from number_value_unit [OF this] p show ?thesis by simp
qed

lemma simulate_evi:
  "simulate rnd ''EVI (Enhanced Vegetation Index)'' st
     = ((fst st)(''EVI'' \<mapsto> toFixed 4 (dbl_add (dbl_mul (rnd (snd st)) (lit 0.8)) (lit 0.1))), Suc (snd st))"
  by (simp add: simulate_def Let_def)

lemma result_keys_ndvi: "result_keys ''NDVI (Normalized Difference Vegetation Index)'' = {''NDVI''}"
  by (simp add: result_keys_def simulate_ndvi)

lemma example_two_selected_eq:
  "example_two_selected =
     example_scenario\<lparr> selectedComputations :=
       [''NDVI (Normalized Difference Vegetation Index)'', ''EVI (Enhanced Vegetation Index)''] \<rparr>"
  by (simp add: example_two_selected_def handleComputationChange_def example_scenario_eq
      mountedState_eq initialState_def)

lemma example_after_run_eq:
  "example_after_run =
     example_two_selected\<lparr> computationResults := [''NDVI'' \<mapsto> ''-0.5000'', ''EVI'' \<mapsto> ''0.3000''],
                           showCalculationResults := True \<rparr>"
proof -
  have "fst (simulate_all (\<lambda>_. 1 / 4)
          [''NDVI (Normalized Difference Vegetation Index)'', ''EVI (Enhanced Vegetation Index)''])
      = [''NDVI'' \<mapsto> ''-0.5000'', ''EVI'' \<mapsto> ''0.3000'']"
    by (simp only: simulate_all_def fold_simps simulate_ndvi simulate_evi fst_conv snd_conv
        ndvi_quarter evi_quarter toFixed_4_neg_half toFixed_4_evi_quarter) simp
  then show ?thesis
    by (simp add: example_after_run_def handleCalculate_timeout_def handleCalculate_def
        example_two_selected_eq example_scenario_eq mountedState_eq initialState_def)
qed

lemma example_ndvi_selected_eq:
  "example_ndvi_selected =
     example_scenario\<lparr> selectedComputations := [''NDVI (Normalized Difference Vegetation Index)''],
                        computationResults := [''NDVI'' \<mapsto> ''-0.5000'', ''EVI'' \<mapsto> ''0.3000''] \<rparr>"
  by (simp add: example_ndvi_selected_def handleComputationChange_def example_after_run_eq
      example_two_selected_eq example_scenario_eq mountedState_eq initialState_def)

lemma example_ndvi_selected_ready:
  "set (selectedComputations example_ndvi_selected) = {''NDVI (Normalized Difference Vegetation Index)''}"
  "selectedComputations example_ndvi_selected \<noteq> []"
  "results_rendered example_ndvi_selected"
  "\<not> isCalculating example_ndvi_selected"
  "dom (computationResults example_ndvi_selected) = {''NDVI'', ''EVI''}"
  by (auto simp: example_ndvi_selected_eq example_scenario_eq mountedState_eq initialState_def
      results_rendered_def)

text \<open>
  Claim C6.  The "Calculate Selected" button calls its handler only when the selection
  is not empty and no run is in progress (and the result panel is rendered).  The
  handler sets the calculating flag and empties the result object, after which a
  second click does nothing.  The timer callback clears the flag, shows the results
  and stores a result object that does not depend on what the session held before: its
  keys are exactly the keys written for the names selected when the button was clicked,
  and a run from a session with old results gives the same results as a run from the
  same session without them.  The delay of the timer (1500 ms) is not part of the
  model; the click and the callback are its two steps.
\<close>

theorem computation_run_fresh:
  "(calculate_click s \<noteq> None \<longrightarrow> selectedComputations s \<noteq> [] \<and> \<not> isCalculating s)
   \<and> (results_rendered s \<and> selectedComputations s \<noteq> [] \<and> \<not> isCalculating s \<longrightarrow>
        calculate_click s = Some (handleCalculate s))
   \<and> isCalculating (handleCalculate s)
   \<and> computationResults (handleCalculate s) = Map.empty
   \<and> calculate_click (handleCalculate s) = None
   \<and> \<not> isCalculating (handleCalculate_timeout rnd sel t)
   \<and> showCalculationResults (handleCalculate_timeout rnd sel t)
   \<and> computationResults (handleCalculate_timeout rnd sel t)
       = computationResults (handleCalculate_timeout rnd sel initialState)
   \<and> dom (computationResults (handleCalculate_timeout rnd sel t))
       = (\<Union>item\<in>set sel. result_keys item)
   \<and> map_option computationResults (handleCalculate_run rnd (s\<lparr> computationResults := old \<rparr>))
       = map_option computationResults (handleCalculate_run rnd s)
   \<and> (calculate_click s \<noteq> None \<longrightarrow>
        map_option (\<lambda>u. dom (computationResults u)) (handleCalculate_run rnd s)
          = Some (\<Union>item\<in>set (selectedComputations s). result_keys item))"
proof -
  have only: "selectedComputations s \<noteq> [] \<and> \<not> isCalculating s" if "calculate_click s \<noteq> None"
    using that by (auto simp: calculate_click_def calculate_disabled_def split: if_splits)
  have enabled: "calculate_click s = Some (handleCalculate s)"
    if "results_rendered s \<and> selectedComputations s \<noteq> [] \<and> \<not> isCalculating s"
    using that by (simp add: calculate_click_Some)
  have running: "isCalculating (handleCalculate s)" "computationResults (handleCalculate s) = Map.empty"
    by (simp_all add: handleCalculate_def)
  have again: "calculate_click (handleCalculate s) = None"
    by (simp add: calculate_click_def calculate_disabled_def handleCalculate_def)
  have finished: "\<not> isCalculating (handleCalculate_timeout rnd sel t)"
    "showCalculationResults (handleCalculate_timeout rnd sel t)"
    by (simp_all add: handleCalculate_timeout_def)
  have fresh: "computationResults (handleCalculate_timeout rnd sel t)
       = computationResults (handleCalculate_timeout rnd sel initialState)"
    by (simp add: handleCalculate_timeout_def)
  have keys: "dom (computationResults (handleCalculate_timeout rnd sel t))
       = (\<Union>item\<in>set sel. result_keys item)"
    by (simp add: handleCalculate_timeout_def simulate_all_dom)
  have unmerged: "map_option computationResults (handleCalculate_run rnd (s\<lparr> computationResults := old \<rparr>))
       = map_option computationResults (handleCalculate_run rnd s)"
    by (simp add: handleCalculate_run_def calculate_click_ignores_results option.map_comp o_def
        handleCalculate_timeout_def)
  have runkeys: "map_option (\<lambda>u. dom (computationResults u)) (handleCalculate_run rnd s)
          = Some (\<Union>item\<in>set (selectedComputations s). result_keys item)"
    if "calculate_click s \<noteq> None"
  proof -
    from that obtain t where "calculate_click s = Some t" by auto
    then show ?thesis by (simp add: handleCalculate_run_def handleCalculate_timeout_def simulate_all_dom)
  qed
  from only enabled running again finished fresh keys unmerged runkeys show ?thesis by blast
qed

theorem computation_run_fresh_witness:
  "calculate_click example_ndvi_selected \<noteq> None
   \<and> results_rendered example_ndvi_selected
   \<and> selectedComputations example_ndvi_selected \<noteq> []
   \<and> \<not> isCalculating example_ndvi_selected
   \<and> calculate_click example_ndvi_selected = Some (handleCalculate example_ndvi_selected)
   \<and> calculate_click (handleCalculate example_ndvi_selected) = None
   \<and> dom (computationResults example_ndvi_selected) = {''NDVI'', ''EVI''}
   \<and> map_option (\<lambda>u. dom (computationResults u)) (handleCalculate_run (\<lambda>_. 3 / 4) example_ndvi_selected)
       = Some {''NDVI''}"
proof -
  note t = computation_run_fresh [of example_ndvi_selected "\<lambda>_. 3 / 4"]
  from t example_ndvi_selected_ready
  have c: "calculate_click example_ndvi_selected = Some (handleCalculate example_ndvi_selected)"
    by blast
  then have n: "calculate_click example_ndvi_selected \<noteq> None" by simp
  from t n have "map_option (\<lambda>u. dom (computationResults u))
        (handleCalculate_run (\<lambda>_. 3 / 4) example_ndvi_selected)
      = Some (\<Union>item\<in>set (selectedComputations example_ndvi_selected). result_keys item)"
    by blast
  then have k: "map_option (\<lambda>u. dom (computationResults u))
        (handleCalculate_run (\<lambda>_. 3 / 4) example_ndvi_selected) = Some {''NDVI''}"
    by (simp add: example_ndvi_selected_ready(1) result_keys_ndvi)
  from t have a: "calculate_click (handleCalculate example_ndvi_selected) = None" by blast
  from c n k a example_ndvi_selected_ready show ?thesis by simp
qed

text \<open>
  Claim C7.  When the selection consists of the name
  \<^verbatim>\<open>NDVI (Normalized Difference Vegetation Index)\<close> alone, a run is possible and
  \<^verbatim>\<open>Math.random\<close> yields values in \<open>[0, 1)\<close>, the run stores a result object with the one key
  \<^verbatim>\<open>NDVI\<close>; its value is an optional minus sign, digits, a point and four digits, and
  read back as a number it lies in \<open>[-1, 1]\<close>.
\<close>

theorem ndvi_only_run:
  assumes sel: "set (selectedComputations s) = {''NDVI (Normalized Difference Vegetation Index)''}"
    and rendered: "results_rendered s"
    and idle: "\<not> isCalculating s"
    and rnd: "\<forall>i. 0 \<le> rnd i \<and> rnd i < 1"
  shows "\<exists>u v x. handleCalculate_run rnd s = Some u
     \<and> dom (computationResults u) = {''NDVI''}
     \<and> computationResults u ''NDVI'' = Some v
     \<and> parseFloat v = Num x \<and> -1 \<le> x \<and> x \<le> 1
     \<and> (\<exists>sgn ip fp. v = sgn @ ip @ ''.'' @ fp \<and> (sgn = [] \<or> sgn = ''-'') \<and> ip \<noteq> []
           \<and> list_all is_digit ip \<and> list_all is_digit fp \<and> length fp = 4)"
proof -
  have ne: "selectedComputations s \<noteq> []"
    by (rule singleton_set_nonempty [OF sel])
  with rendered idle have click: "calculate_click s = Some (handleCalculate s)"
    by (simp add: calculate_click_def calculate_disabled_def)
  let ?u = "handleCalculate_timeout rnd (selectedComputations s) (handleCalculate s)"
  have run: "handleCalculate_run rnd s = Some ?u"
    by (simp add: handleCalculate_run_def click)
  from simulate_all_ndvi [OF sel] obtain j
    where res: "fst (simulate_all rnd (selectedComputations s))
        = [''NDVI'' \<mapsto> toFixed 4 (dbl_sub (dbl_mul (rnd j) (lit 2)) (lit 1))]" by blast
  let ?v = "toFixed 4 (dbl_sub (dbl_mul (rnd j) (lit 2)) (lit 1))"
  have cr: "computationResults ?u = [''NDVI'' \<mapsto> ?v]"
    by (simp add: handleCalculate_timeout_def res)
  from rnd have "0 \<le> rnd j" "rnd j < 1" by simp_all
  then have "\<bar>dbl_sub (dbl_mul (rnd j) (lit 2)) (lit 1)\<bar> \<le> 1" by (rule ndvi_value_bound)
  from parseFloat_toFixed_unit [OF this] obtain x
    where x: "parseFloat ?v = Num x" "-1 \<le> x" "x \<le> 1" by blast
  have d: "dom (computationResults ?u) = {''NDVI''}" and g: "computationResults ?u ''NDVI'' = Some ?v"
    by (simp_all add: cr)
  from run d g x toFixed_4_shape [of "dbl_sub (dbl_mul (rnd j) (lit 2)) (lit 1)"] show ?thesis by blast
qed

theorem ndvi_only_run_witness:
  "set (selectedComputations example_ndvi_selected) = {''NDVI (Normalized Difference Vegetation Index)''}
   \<and> results_rendered example_ndvi_selected
   \<and> \<not> isCalculating example_ndvi_selected
   \<and> (\<forall>i::nat. (0::real) \<le> 3 / 4 \<and> (3 / 4 :: real) < 1)
   \<and> (\<exists>u v x. handleCalculate_run (\<lambda>_. 3 / 4) example_ndvi_selected = Some u
         \<and> dom (computationResults u) = {''NDVI''}
         \<and> computationResults u ''NDVI'' = Some v
         \<and> parseFloat v = Num x \<and> -1 \<le> x \<and> x \<le> 1
         \<and> (\<exists>sgn ip fp. v = sgn @ ip @ ''.'' @ fp \<and> (sgn = [] \<or> sgn = ''-'') \<and> ip \<noteq> []
               \<and> list_all is_digit ip \<and> list_all is_digit fp \<and> length fp = 4))"
proof -
  have r: "\<forall>i::nat. (0::real) \<le> (\<lambda>_. 3 / 4) i \<and> (\<lambda>_. 3 / 4 :: real) i < 1" by simp
  from ndvi_only_run [OF example_ndvi_selected_ready(1,3,4) r] example_ndvi_selected_ready(1,3,4)
  show ?thesis by simp
qed

end
